theory Spec2Isabelle
  imports Main
begin

section \<open>Python strings\<close>

text \<open>
  A Python \<open>str\<close> is a sequence of Unicode code points, so it is modelled as a list of
  natural numbers (the code points) rather than as a list of 8-bit characters: the
  source distinguishes ASCII from non-ASCII characters and relies on Python's notion of
  whitespace, both of which are properties of code points. \<open>ustr\<close> turns an (ASCII)
  literal into such a string.
\<close>

type_synonym pystr = "nat list"

definition ustr :: "string \<Rightarrow> pystr" where
  "ustr s = map of_char s"

text \<open>
  The characters for which \<open>str.isspace\<close> holds; \<open>str.strip()\<close> without argument and
  the class \<open>\s\<close> of \<open>re\<close> on \<open>str\<close> patterns use the same test.
\<close>

definition is_space :: "nat \<Rightarrow> bool" where
  "is_space c \<longleftrightarrow>
     (9 \<le> c \<and> c \<le> 13) \<or> (28 \<le> c \<and> c \<le> 32) \<or> c = 133 \<or> c = 160 \<or> c = 5760 \<or>
     (8192 \<le> c \<and> c \<le> 8202) \<or> c = 8232 \<or> c = 8233 \<or> c = 8239 \<or> c = 8287 \<or> c = 12288"

text \<open>The class \<open>[^\x00-\x7F]\<close>.\<close>

definition non_ascii :: "nat \<Rightarrow> bool" where
  "non_ascii c \<longleftrightarrow> 127 < c"

text \<open>\<open>s.strip()\<close>\<close>

definition strip :: "pystr \<Rightarrow> pystr" where
  "strip s = rev (dropWhile is_space (rev (dropWhile is_space s)))"

text \<open>\<open>sep.join(parts)\<close>\<close>

fun join :: "pystr \<Rightarrow> pystr list \<Rightarrow> pystr" where
  "join sep [] = []"
| "join sep [x] = x"
| "join sep (x # y # ys) = x @ sep @ join sep (y # ys)"

text \<open>
  \<open>re.sub(cls+, ' ', s)\<close> for a character class \<open>cls\<close>: every maximal run of
  characters of the class is replaced by one space.
\<close>

function sub_runs :: "(nat \<Rightarrow> bool) \<Rightarrow> pystr \<Rightarrow> pystr" where
  "sub_runs P [] = []"
| "sub_runs P (c # cs) =
     (if P c then 32 # sub_runs P (dropWhile P cs) else c # sub_runs P cs)"
  by pat_completeness auto
termination
  by (relation "measure (\<lambda>(P, s). length s)")
     (auto simp: less_Suc_eq_le length_dropWhile_le)

text \<open>\<open>sub in s\<close> for strings, and the index of the first occurrence (\<open>s.find(sub)\<close>).\<close>

fun is_prefix :: "pystr \<Rightarrow> pystr \<Rightarrow> bool" where
  "is_prefix [] s = True"
| "is_prefix (p # ps) [] = False"
| "is_prefix (p # ps) (c # cs) = (p = c \<and> is_prefix ps cs)"

fun contains :: "pystr \<Rightarrow> pystr \<Rightarrow> bool" where
  "contains sub [] = (sub = [])"
| "contains sub (c # cs) = (is_prefix sub (c # cs) \<or> contains sub cs)"

fun find_str :: "pystr \<Rightarrow> pystr \<Rightarrow> nat option" where
  "find_str sub [] = (if sub = [] then Some 0 else None)"
| "find_str sub (c # cs) =
     (if is_prefix sub (c # cs) then Some 0 else map_option Suc (find_str sub cs))"

section \<open>Exceptions\<close>

text \<open>
  Both nodes catch \<open>Exception\<close> and use only \<open>str(e)\<close>, so an exception is modelled by
  its message. A computation that may raise returns \<open>exn + 'a\<close>, with \<open>Inl\<close> the raise.
\<close>

datatype exn = Exception (str_of: pystr)

section \<open>The annotation response (video\_indexer.py)\<close>

text \<open>
  The parts of the provider's \<open>AnnotateVideoResponse\<close> that \<open>extract_data\<close> reads. A
  time offset is a \<open>timedelta\<close>, kept as its number of microseconds.
\<close>

record SpeechRecognitionAlternative =
  alt_transcript :: pystr

record SpeechTranscription =
  alternatives :: "SpeechRecognitionAlternative list"

record TextAnnotation =
  ta_text :: pystr

record VideoSegment =
  start_time_offset :: int
  end_time_offset :: int

record LabelSegment =
  segment :: VideoSegment

record LabelAnnotation =
  segments :: "LabelSegment list"

record VideoAnnotationResults =
  speech_transcriptions :: "SpeechTranscription list"
  text_annotations :: "TextAnnotation list"
  segment_label_annotations :: "LabelAnnotation list"

record AnnotateVideoResponse =
  annotation_results :: "VideoAnnotationResults list"

section \<open>The audit state (state.py)\<close>

text \<open>
  Values that come out of \<open>json.loads\<close> are not validated by the nodes before they are
  stored, so the fields they reach hold arbitrary Python values. A float is kept by its
  \<open>repr\<close>; a \<open>dict\<close> is an association list with distinct keys.
\<close>

datatype pyval =
    PNone
  | PBool bool
  | PInt int
  | PFloat pystr
  | PStr pystr
  | PList "pyval list"
  | PDict "(pystr \<times> pyval) list"

text \<open>\<open>duration_sec\<close> is the integer \<open>0\<close> or the \<open>total_seconds()\<close> of a \<open>timedelta\<close>.\<close>

datatype duration_val = IntZero | TotalSeconds int

record VideoMetadata =
  duration :: duration_val
  platform :: pystr
  source_uri :: pystr

text \<open>
  \<open>VideoAuditState\<close>: a key that may be missing from the dictionary is an \<open>option\<close>.
  \<open>video_url\<close> is supplied by every caller and read without a default. The two fields
  annotated with \<open>operator.add\<close> are lists from the start (both callers pass \<open>[]\<close>).
\<close>

record VideoAuditState =
  video_url :: pystr
  video_id :: "pystr option"
  local_file_path :: "pystr option"
  video_metadata :: "VideoMetadata option"
  transcript :: "pystr option"
  ocr_text :: "pystr list option"
  compliance_results :: "pyval list"
  final_status :: "pyval option"
  final_report :: "pyval option"
  errors :: "pystr list"

text \<open>
  The dictionary a node returns: the keys it contains are \<open>Some\<close>. These are all the keys
  the two nodes ever return.
\<close>

record node_output =
  out_transcript :: "pystr option"
  out_ocr_text :: "pystr list option"
  out_video_metadata :: "VideoMetadata option"
  out_compliance_results :: "pyval option"
  out_final_status :: "pyval option"
  out_final_report :: "pyval option"
  out_errors :: "pystr list option"

definition empty_output :: node_output where
  "empty_output = \<lparr> out_transcript = None, out_ocr_text = None, out_video_metadata = None,
     out_compliance_results = None, out_final_status = None, out_final_report = None,
     out_errors = None \<rparr>"

section \<open>VideoIntelligenceService.extract\_data (video\_indexer.py)\<close>

text \<open>
  The loop over the speech segments: the first alternative of every segment that has
  one.
\<close>

fun transcript_parts :: "SpeechTranscription list \<Rightarrow> pystr list" where
  "transcript_parts [] = []"
| "transcript_parts (speech_transcription # rest) =
     (case alternatives speech_transcription of
        [] \<Rightarrow> transcript_parts rest
      | best_alternative # _ \<Rightarrow> alt_transcript best_alternative # transcript_parts rest)"

text \<open>The two substitutions and the strip of the OCR fallback.\<close>

definition cleaned_ocr :: "pystr \<Rightarrow> pystr" where
  "cleaned_ocr raw_ocr = strip (sub_runs is_space (sub_runs non_ascii raw_ocr))"

text \<open>
  \<open>segments[-1]\<close> on an empty repeated field raises \<open>IndexError\<close>; the text of its
  message is the library's and nothing below depends on it.
\<close>

definition index_error :: exn where
  "index_error = Exception (ustr ''list index out of range'')"

definition duration_of :: "VideoAnnotationResults \<Rightarrow> exn + duration_val" where
  "duration_of annotations =
     (case segment_label_annotations annotations of
        [] \<Rightarrow> Inr IntZero
      | first_label # _ \<Rightarrow>
          (case segments first_label of
             [] \<Rightarrow> Inl index_error
           | _ # _ \<Rightarrow> Inr (TotalSeconds (end_time_offset (segment (last (segments first_label)))))))"

text \<open>\<open>None\<close> in an f-string is rendered as the text \<open>None\<close>.\<close>

definition fmt_opt :: "pystr option \<Rightarrow> pystr" where
  "fmt_opt v = (case v of None \<Rightarrow> ustr ''None'' | Some s \<Rightarrow> s)"

definition extract_data :: "pystr option \<Rightarrow> AnnotateVideoResponse \<Rightarrow> exn + node_output" where
  "extract_data bucket_name analysis_result =
     (case annotation_results analysis_result of
        [] \<Rightarrow> Inr (empty_output \<lparr> out_transcript := Some [], out_ocr_text := Some [] \<rparr>)
      | annotations # _ \<Rightarrow>
          (let speech = strip (join (ustr '' '') (transcript_parts (speech_transcriptions annotations)));
               full_transcript =
                 (if speech = [] \<and> text_annotations annotations \<noteq> []
                  then cleaned_ocr (join (ustr '' '') (map ta_text (text_annotations annotations)))
                  else speech);
               ocr_lines = map ta_text (text_annotations annotations)
           in case duration_of annotations of
                Inl e \<Rightarrow> Inl e
              | Inr duration_sec \<Rightarrow>
                  Inr (empty_output \<lparr>
                    out_transcript := Some full_transcript,
                    out_ocr_text := Some ocr_lines,
                    out_video_metadata := Some \<lparr> duration = duration_sec,
                      platform = ustr ''youtube'',
                      source_uri = ustr ''gs://'' @ fmt_opt bucket_name @ ustr ''/...'' \<rparr> \<rparr>)))"

section \<open>The outside world\<close>

text \<open>
  Everything the nodes call outside this repository is a parameter: the cloud clients,
  the downloader, the file system, the retriever, the language model, \<open>json.loads\<close> and
  \<open>repr\<close>. A call that can fail returns the exception it raises.

  A retrieved document is kept by its \<open>page_content\<close>, the only part that is read.
  The retriever and the model are called through a log of the external calls made so
  far by the Judgment node; their answer may depend on it, so that two calls need not
  agree.
\<close>

datatype call =
    InitLLM
  | InitRetriever
  | Retrieve pystr
  | Invoke pystr pystr

record env =
  service_init :: "exn option"
  bucket_name :: "pystr option"
  ydl_download :: "pystr \<Rightarrow> pystr \<Rightarrow> exn option"
  blob_upload :: "pystr \<Rightarrow> pystr \<Rightarrow> exn option"
  path_exists :: "pystr \<Rightarrow> bool"
  os_remove :: "pystr \<Rightarrow> exn option"
  video_client_annotate :: "pystr \<Rightarrow> exn + AnnotateVideoResponse"
  llm_init :: "exn option"
  retriever_init :: "exn option"
  retriever_invoke :: "call list \<Rightarrow> pystr \<Rightarrow> exn + pystr list"
  llm_invoke :: "call list \<Rightarrow> pystr \<Rightarrow> pystr \<Rightarrow> exn + pystr"
  json_loads :: "pystr \<Rightarrow> exn + pyval"
  repr_metadata :: "VideoMetadata option \<Rightarrow> pystr"
  repr_list :: "pystr list \<Rightarrow> pystr"

section \<open>VideoIntelligenceService (video\_indexer.py)\<close>

definition download_youtube_video :: "env \<Rightarrow> pystr \<Rightarrow> pystr \<Rightarrow> exn + pystr" where
  "download_youtube_video env url output_path =
     (case ydl_download env url output_path of
        None \<Rightarrow> Inr output_path
      | Some e \<Rightarrow> Inl (Exception (ustr ''YouTube Download Failed: '' @ str_of e)))"

definition upload_video :: "env \<Rightarrow> pystr \<Rightarrow> pystr \<Rightarrow> exn + pystr" where
  "upload_video env video_path video_name =
     (let destination_blob_name = ustr ''videos/'' @ video_name @ ustr ''.mp4'' in
      case blob_upload env video_path destination_blob_name of
        None \<Rightarrow> Inr (ustr ''gs://'' @ fmt_opt (bucket_name env) @ ustr ''/'' @ destination_blob_name)
      | Some e \<Rightarrow> Inl (Exception (ustr ''GCS Upload Failed: '' @ str_of e)))"

text \<open>
  \<open>annotate_video\<close> starts the operation and waits for its result, for at most 600
  seconds; a timeout is one of the exceptions of the call.
\<close>

definition annotate_video :: "env \<Rightarrow> pystr \<Rightarrow> exn + AnnotateVideoResponse" where
  "annotate_video env gcs_uri = video_client_annotate env gcs_uri"

section \<open>Node 1: index\_video\_node (nodes.py)\<close>

text \<open>Step 3 of the node: remove the local file if it exists.\<close>

definition cleanup :: "env \<Rightarrow> pystr \<Rightarrow> exn option" where
  "cleanup env local_path =
     (if path_exists env local_path then os_remove env local_path else None)"

text \<open>\<open>state.get("video_id", "vid_demo")\<close> and the name of the local file.\<close>

definition video_id_input :: "VideoAuditState \<Rightarrow> pystr" where
  "video_id_input state = (case video_id state of None \<Rightarrow> ustr ''vid_demo'' | Some v \<Rightarrow> v)"

definition local_filename :: "VideoAuditState \<Rightarrow> pystr" where
  "local_filename state = ustr ''temp_'' @ video_id_input state @ ustr ''.mp4''"

text \<open>The body of the \<open>try\<close> block.\<close>

definition index_video_try :: "env \<Rightarrow> VideoAuditState \<Rightarrow> exn + node_output" where
  "index_video_try env state =
     (case service_init env of
        Some e \<Rightarrow> Inl e
      | None \<Rightarrow>
          if contains (ustr ''youtube.com'') (video_url state) \<or>
             contains (ustr ''youtu.be'') (video_url state)
          then
            (case download_youtube_video env (video_url state) (local_filename state) of
               Inl e \<Rightarrow> Inl e
             | Inr local_path \<Rightarrow>
                 (case upload_video env local_path (video_id_input state) of
                    Inl e \<Rightarrow> Inl e
                  | Inr gcs_uri \<Rightarrow>
                      (case cleanup env local_path of
                         Some e \<Rightarrow> Inl e
                       | None \<Rightarrow>
                           (case annotate_video env gcs_uri of
                              Inl e \<Rightarrow> Inl e
                            | Inr raw_insights \<Rightarrow> extract_data (bucket_name env) raw_insights))))
          else Inl (Exception (ustr ''Please provide a valid YouTube URL for this test.'')))"

text \<open>The \<open>except\<close> branch.\<close>

definition index_failed :: "exn \<Rightarrow> node_output" where
  "index_failed e = empty_output \<lparr>
     out_errors := Some [str_of e],
     out_final_status := Some (PStr (ustr ''FAIL'')),
     out_transcript := Some [],
     out_ocr_text := Some [] \<rparr>"

definition index_video_node :: "env \<Rightarrow> VideoAuditState \<Rightarrow> node_output" where
  "index_video_node env state =
     (case index_video_try env state of
        Inr clean_data \<Rightarrow> clean_data
      | Inl e \<Rightarrow> index_failed e)"

section \<open>Node 2: audit\_content\_node (nodes.py)\<close>

text \<open>The two f-strings of the prompt.\<close>

definition system_prompt :: "pystr \<Rightarrow> pystr" where
  \<open>system_prompt retrieved_rules =
     ustr (concat [
       ''\<newline>'',
       ''    You are a Senior Brand Compliance Auditor.\<newline>'',
       ''    \<newline>'',
       ''    OFFICIAL REGULATORY RULES:\<newline>'',
       ''    '']) @
     retrieved_rules @
     ustr (concat [
       ''\<newline>'',
       ''    \<newline>'',
       ''    INSTRUCTIONS:\<newline>'',
       ''    1. Analyze the Transcript and OCR text below.\<newline>'',
       ''    2. Identify ANY violations of the rules.\<newline>'',
       ''    3. Return strictly JSON in the following format:\<newline>'',
       ''    \<newline>'',
       ''    {\<newline>'',
       ''        "compliance_results": [\<newline>'',
       ''            {\<newline>'',
       ''                "category": "Claim Validation",\<newline>'',
       ''                "severity": "CRITICAL",\<newline>'',
       ''                "description": "Explanation of the violation..."\<newline>'',
       ''            }\<newline>'',
       ''        ],\<newline>'',
       ''        "status": "FAIL", \<newline>'',
       ''        "final_report": "Summary of findings..."\<newline>'',
       ''    }\<newline>'',
       ''\<newline>'',
       ''    If no violations are found, set "status" to "PASS" and "compliance_results" to [].\<newline>'',
       ''    ''])\<close>

definition user_message :: "env \<Rightarrow> VideoAuditState \<Rightarrow> pystr \<Rightarrow> pystr list \<Rightarrow> pystr" where
  \<open>user_message env state transcript0 ocr_text0 =
     ustr ''\<newline>    VIDEO METADATA: '' @ repr_metadata env (video_metadata state) @
     ustr ''\<newline>    TRANSCRIPT: '' @ transcript0 @
     ustr ''\<newline>    ON-SCREEN TEXT (OCR): '' @ repr_list env ocr_text0 @
     ustr ''\<newline>    ''\<close>

text \<open>
  The markdown cleaning. \<open>re.search(r"```(?:json)?(.*?)```", content, re.DOTALL)\<close>
  matches at the leftmost fence that has a closing fence behind it. At the first fence
  of the text the greedy \<open>(?:json)?\<close> takes the tag when it is there, and the lazy group
  ends at the first fence after that. When there is no such fence, then there is none
  after the opening one at all (a fence cannot begin inside the letters of the tag), so
  neither giving the tag back nor starting at a later fence can match, and the search
  fails. \<open>search_fence\<close> returns group 1.
\<close>

definition fence :: pystr where
  "fence = ustr ''```''"

definition search_fence :: "pystr \<Rightarrow> pystr option" where
  "search_fence content =
     (case find_str fence content of
        None \<Rightarrow> None
      | Some i \<Rightarrow>
          (let rest = drop (i + 3) content;
               body = (if is_prefix (ustr ''json'') rest then drop 4 rest else rest)
           in case find_str fence body of
                None \<Rightarrow> None
              | Some j \<Rightarrow> Some (take j body)))"

definition clean_markdown :: "pystr \<Rightarrow> pystr" where
  "clean_markdown content =
     (if contains fence content
      then (case search_fence content of Some group1 \<Rightarrow> group1 | None \<Rightarrow> content)
      else content)"

text \<open>\<open>type(v).__name__\<close>, for the messages of the interpreter's own errors.\<close>

fun type_name :: "pyval \<Rightarrow> pystr" where
  "type_name PNone = ustr ''NoneType''"
| "type_name (PBool _) = ustr ''bool''"
| "type_name (PInt _) = ustr ''int''"
| "type_name (PFloat _) = ustr ''float''"
| "type_name (PStr _) = ustr ''str''"
| "type_name (PList _) = ustr ''list''"
| "type_name (PDict _) = ustr ''dict''"

text \<open>\<open>d.get(key, default)\<close>\<close>

definition dict_get :: "(pystr \<times> pyval) list \<Rightarrow> pystr \<Rightarrow> pyval \<Rightarrow> pyval" where
  "dict_get d key dflt = (case map_of d key of None \<Rightarrow> dflt | Some v \<Rightarrow> v)"

text \<open>
  The body of the \<open>try\<close> block, after the model has answered: cleaning, parsing and the
  three \<open>get\<close>s, which raise \<open>AttributeError\<close> on anything that is not a \<open>dict\<close>.
\<close>

definition parse_audit :: "env \<Rightarrow> pystr \<Rightarrow> exn + node_output" where
  \<open>parse_audit env response_content =
     (case json_loads env (strip (clean_markdown response_content)) of
        Inl e \<Rightarrow> Inl e
      | Inr (PDict audit_data) \<Rightarrow>
          Inr (empty_output \<lparr>
            out_compliance_results := Some (dict_get audit_data (ustr ''compliance_results'') (PList [])),
            out_final_status := Some (dict_get audit_data (ustr ''status'') (PStr (ustr ''FAIL''))),
            out_final_report :=
              Some (dict_get audit_data (ustr ''final_report'') (PStr (ustr ''No report generated.''))) \<rparr>)
      | Inr v \<Rightarrow>
          Inl (Exception (ustr [CHR 0x27] @ type_name v @ ustr [CHR 0x27] @
                 ustr '' object has no attribute '' @ ustr [CHR 0x27] @ ustr ''get'' @ ustr [CHR 0x27])))\<close>

text \<open>The \<open>except\<close> branch.\<close>

definition audit_failed :: "exn \<Rightarrow> node_output" where
  "audit_failed e = empty_output \<lparr>
     out_errors := Some [str_of e],
     out_final_status := Some (PStr (ustr ''FAIL'')) \<rparr>"

definition audit_skipped :: node_output where
  "audit_skipped = empty_output \<lparr>
     out_final_status := Some (PStr (ustr ''FAIL'')),
     out_final_report :=
       Some (PStr (ustr ''Audit skipped because video processing failed (No Transcript).'')) \<rparr>"

definition fallback_query :: pystr where
  "fallback_query = ustr ''General Brand Safety Guidelines Compliance Rules''"

text \<open>
  The node returns the log of the external calls it made, in order, and either its
  output or the exception that leaves it. Only the call of the model and what follows
  it stand inside the \<open>try\<close>.

  \<open>retrieve_rules\<close> is the part of the node between the transcript check and the
  prompt: the two clients are built, the retriever is asked the query and, when it
  finds nothing, asked the fallback query.
\<close>

definition query_text :: "pystr \<Rightarrow> pystr list \<Rightarrow> pystr" where
  "query_text transcript0 ocr_text0 = transcript0 @ ustr '' '' @ join (ustr '' '') ocr_text0"

definition retrieve_rules :: "env \<Rightarrow> pystr \<Rightarrow> call list \<times> (exn + pystr list)" where
  "retrieve_rules env query =
     (case llm_init env of
        Some e \<Rightarrow> ([InitLLM], Inl e)
      | None \<Rightarrow>
          (case retriever_init env of
             Some e \<Rightarrow> ([InitLLM, InitRetriever], Inl e)
           | None \<Rightarrow>
               (let log1 = [InitLLM, InitRetriever];
                    log2 = log1 @ [Retrieve query]
                in case retriever_invoke env log1 query of
                     Inl e \<Rightarrow> (log2, Inl e)
                   | Inr docs \<Rightarrow>
                       if docs = []
                       then (log2 @ [Retrieve fallback_query],
                             retriever_invoke env log2 fallback_query)
                       else (log2, Inr docs))))"

definition audit_content_node ::
    "env \<Rightarrow> VideoAuditState \<Rightarrow> call list \<times> (exn + node_output)" where
  "audit_content_node env state =
     (let transcript0 = (case transcript state of None \<Rightarrow> [] | Some t \<Rightarrow> t) in
      if transcript0 = [] then ([], Inr audit_skipped)
      else
        (let ocr_text0 = (case ocr_text state of None \<Rightarrow> [] | Some l \<Rightarrow> l) in
         case retrieve_rules env (query_text transcript0 ocr_text0) of
           (log, Inl e) \<Rightarrow> (log, Inl e)
         | (log, Inr docs) \<Rightarrow>
             (let retrieved_rules = join [10, 10] docs;
                  sp = system_prompt retrieved_rules;
                  um = user_message env state transcript0 ocr_text0
              in (log @ [Invoke sp um],
                  Inr (case llm_invoke env log sp um of
                         Inl e \<Rightarrow> audit_failed e
                       | Inr response_content \<Rightarrow>
                           (case parse_audit env response_content of
                              Inl e \<Rightarrow> audit_failed e
                            | Inr out \<Rightarrow> out))))))"

section \<open>The graph (workflow.py, state.py)\<close>

text \<open>
  \<open>operator.add\<close>, the reducer that state.py attaches to \<open>compliance_results\<close> and
  \<open>errors\<close>, on a list and a value a node returned: list concatenation, and a
  \<open>TypeError\<close> when the value is not a list.
\<close>

definition operator_add :: "pyval list \<Rightarrow> pyval \<Rightarrow> exn + pyval list" where
  \<open>operator_add old new =
     (case new of
        PList xs \<Rightarrow> Inr (old @ xs)
      | _ \<Rightarrow> Inl (Exception (ustr ''can only concatenate list (not "'' @ type_name new @
                 ustr ''") to list'')))\<close>

text \<open>A field without reducer keeps its value unless the node's output has the key.\<close>

definition overwrite :: "'a option \<Rightarrow> 'a option \<Rightarrow> 'a option" where
  "overwrite old new = (case new of None \<Rightarrow> old | Some v \<Rightarrow> Some v)"

text \<open>
  Modelled from the spec: the state merge of the graph, which workflow.py obtains from
  the graph library and which is not among the sources. ``List-valued fields
  (\<open>compliance_results\<close>, \<open>errors\<close>) are concatenated across node outputs; all other
  fields overwritten by the most recent node's output.''
\<close>

definition apply_update :: "VideoAuditState \<Rightarrow> node_output \<Rightarrow> exn + VideoAuditState" where
  "apply_update state out =
     (case (case out_compliance_results out of
              None \<Rightarrow> Inr (compliance_results state)
            | Some new \<Rightarrow> operator_add (compliance_results state) new) of
        Inl e \<Rightarrow> Inl e
      | Inr results \<Rightarrow>
          Inr (state \<lparr>
            transcript := overwrite (transcript state) (out_transcript out),
            ocr_text := overwrite (ocr_text state) (out_ocr_text out),
            video_metadata := overwrite (video_metadata state) (out_video_metadata out),
            compliance_results := results,
            final_status := overwrite (final_status state) (out_final_status out),
            final_report := overwrite (final_report state) (out_final_report out),
            errors := errors state @ (case out_errors out of None \<Rightarrow> [] | Some es \<Rightarrow> es) \<rparr>))"

text \<open>
  Modelled from the spec: the pipeline of workflow.py, which is not among the sources.
  ``Two fixed nodes executed strictly in sequence: Extraction \<open>\<rightarrow>\<close> Judgment'': the
  Extraction node runs on the caller's state, its output is merged, the Judgment node
  runs on the merged state and its output is merged. An exception that leaves a node or
  the merge ends the run.
\<close>

definition graph_invoke :: "env \<Rightarrow> VideoAuditState \<Rightarrow> exn + VideoAuditState" where
  "graph_invoke env initial_inputs =
     (case apply_update initial_inputs (index_video_node env initial_inputs) of
        Inl e \<Rightarrow> Inl e
      | Inr state1 \<Rightarrow>
          (case snd (audit_content_node env state1) of
             Inl e \<Rightarrow> Inl e
           | Inr out \<Rightarrow> apply_update state1 out))"

section \<open>Sample inputs\<close>

text \<open>Two compliance issues, as the model reports them.\<close>

definition old_issue :: pyval where
  "old_issue = PDict [(ustr ''category'', PStr (ustr ''Logo Usage'')),
                      (ustr ''severity'', PStr (ustr ''LOW'')),
                      (ustr ''description'', PStr (ustr ''earlier finding''))]"

definition new_issue :: pyval where
  "new_issue = PDict [(ustr ''category'', PStr (ustr ''Claim Validation'')),
                      (ustr ''severity'', PStr (ustr ''CRITICAL'')),
                      (ustr ''description'', PStr (ustr ''unsupported claim''))]"

text \<open>
  A world in which every step of the Extraction node succeeds, with a given annotation
  result, retriever and model answer. Its \<open>json.loads\<close> knows three texts.
\<close>

definition sample_json_loads :: "pystr \<Rightarrow> exn + pyval" where
  \<open>sample_json_loads s =
     (if s = ustr ''{}'' then Inr (PDict [])
      else if s = ustr ''{"status": "PASS", "compliance_results": [], "final_report": "ok"}''
      then Inr (PDict [(ustr ''status'', PStr (ustr ''PASS'')),
                       (ustr ''compliance_results'', PList []),
                       (ustr ''final_report'', PStr (ustr ''ok''))])
      else if s = ustr ''{"status": "FAIL", "compliance_results": [{"category": "Claim Validation", "severity": "CRITICAL", "description": "unsupported claim"}], "final_report": "1 issue"}''
      then Inr (PDict [(ustr ''status'', PStr (ustr ''FAIL'')),
                       (ustr ''compliance_results'', PList [new_issue]),
                       (ustr ''final_report'', PStr (ustr ''1 issue''))])
      else Inl (Exception (ustr ''Expecting value: line 1 column 1 (char 0)'')))\<close>

definition sample_env ::
    "exn + AnnotateVideoResponse \<Rightarrow> (call list \<Rightarrow> pystr \<Rightarrow> exn + pystr list) \<Rightarrow> exn + pystr \<Rightarrow> env" where
  "sample_env annotation retriever answer = \<lparr>
     service_init = None,
     bucket_name = Some (ustr ''bucket''),
     ydl_download = (\<lambda>url output_path. None),
     blob_upload = (\<lambda>video_path blob_name. None),
     path_exists = (\<lambda>path. True),
     os_remove = (\<lambda>path. None),
     video_client_annotate = (\<lambda>gcs_uri. annotation),
     llm_init = None,
     retriever_init = None,
     retriever_invoke = retriever,
     llm_invoke = (\<lambda>log sp um. answer),
     json_loads = sample_json_loads,
     repr_metadata = (\<lambda>m. ustr ''{}''),
     repr_list = (\<lambda>l. ustr ''[]'') \<rparr>"

definition sample_state :: VideoAuditState where
  "sample_state = \<lparr>
     video_url = ustr ''https://youtu.be/dT7S75eYhcQ'',
     video_id = Some (ustr ''vid_1''),
     local_file_path = None,
     video_metadata = None,
     transcript = None,
     ocr_text = None,
     compliance_results = [],
     final_status = None,
     final_report = None,
     errors = [] \<rparr>"

definition speech_response :: "pystr \<Rightarrow> AnnotateVideoResponse" where
  "speech_response said = \<lparr> annotation_results = [\<lparr>
     speech_transcriptions = [\<lparr> alternatives = [\<lparr> alt_transcript = said \<rparr>] \<rparr>],
     text_annotations = [],
     segment_label_annotations = [] \<rparr>] \<rparr>"

definition download_failing_env :: env where
  "download_failing_env =
     (sample_env (Inr (speech_response (ustr ''hello''))) (\<lambda>log q. Inr []) (Inr (ustr ''{}'')))
       \<lparr> ydl_download := (\<lambda>url output_path. Some (Exception (ustr ''HTTP Error 403''))) \<rparr>"

text \<open>A world in which every cloud call raises.\<close>

definition offline_env :: env where
  "offline_env =
     (sample_env (Inl (Exception (ustr ''503''))) (\<lambda>log q. Inl (Exception (ustr ''503'')))
        (Inl (Exception (ustr ''503''))))
       \<lparr> llm_init := Some (Exception (ustr ''503'')),
         retriever_init := Some (Exception (ustr ''503'')) \<rparr>"

definition no_results_env :: env where
  "no_results_env =
     sample_env (Inr \<lparr> annotation_results = [] \<rparr>) (\<lambda>log q. Inr []) (Inr (ustr ''{}''))"

text \<open>A state as the Judgment node finds it after a successful extraction.\<close>

definition judged_state :: VideoAuditState where
  "judged_state =
     sample_state \<lparr> transcript := Some (ustr ''hello''), ocr_text := Some [ustr ''SALE''] \<rparr>"

definition one_rule :: "call list \<Rightarrow> pystr \<Rightarrow> exn + pystr list" where
  "one_rule log query = Inr [ustr ''Rule 1: no false claims.'']"


definition retrieval_failing_env :: env where
  "retrieval_failing_env =
     sample_env (Inr (speech_response (ustr ''hello'')))
       (\<lambda>log query. Inl (Exception (ustr ''503 Service Unavailable'')))
       (Inr (ustr ''{}''))"



text \<open>
  The end-to-end example: one speech segment, a retriever with one rule, and a model
  that answers \<open>PASS\<close> inside a fenced block.
\<close>

definition passing_env :: env where
  \<open>passing_env =
     sample_env (Inr (speech_response (ustr ''no claims here''))) one_rule
       (Inr (ustr ''```json {"status": "PASS", "compliance_results": [], "final_report": "ok"} ```''))\<close>

text \<open>
  A caller's state that already holds a value in every field, a world whose model
  reports one issue, and the final states of the run in that world and of the run in
  the world whose download fails.
\<close>

definition stale_state :: VideoAuditState where
  "stale_state = sample_state \<lparr>
     video_metadata := Some \<lparr> duration = TotalSeconds 1000000, platform = ustr ''upload'',
       source_uri = ustr ''gs://old/...'' \<rparr>,
     transcript := Some (ustr ''stale words''),
     ocr_text := Some [ustr ''OLD''],
     compliance_results := [old_issue],
     final_status := Some (PStr (ustr ''PASS'')),
     final_report := Some (PStr (ustr ''old report'')),
     errors := [ustr ''earlier error''] \<rparr>"

definition flagging_env :: env where
  \<open>flagging_env =
     sample_env (Inr (speech_response (ustr ''best price guaranteed''))) one_rule
       (Inr (ustr ''{"status": "FAIL", "compliance_results": [{"category": "Claim Validation", "severity": "CRITICAL", "description": "unsupported claim"}], "final_report": "1 issue"}''))\<close>

definition extracted_metadata :: VideoMetadata where
  "extracted_metadata = \<lparr> duration = IntZero, platform = ustr ''youtube'',
     source_uri = ustr ''gs://bucket/...'' \<rparr>"

definition flagged_final :: VideoAuditState where
  "flagged_final = stale_state \<lparr>
     video_metadata := Some extracted_metadata,
     transcript := Some (ustr ''best price guaranteed''),
     ocr_text := Some [],
     compliance_results := [old_issue, new_issue],
     final_status := Some (PStr (ustr ''FAIL'')),
     final_report := Some (PStr (ustr ''1 issue'')) \<rparr>"

definition failed_final :: VideoAuditState where
  "failed_final = stale_state \<lparr>
     transcript := Some [],
     ocr_text := Some [],
     final_status := Some (PStr (ustr ''FAIL'')),
     final_report :=
       Some (PStr (ustr ''Audit skipped because video processing failed (No Transcript).'')),
     errors := [ustr ''earlier error'', ustr ''YouTube Download Failed: HTTP Error 403''] \<rparr>"

definition passing_final :: VideoAuditState where
  "passing_final = sample_state \<lparr>
     video_metadata := Some \<lparr> duration = IntZero, platform = ustr ''youtube'',
       source_uri = ustr ''gs://bucket/...'' \<rparr>,
     transcript := Some (ustr ''no claims here''),
     ocr_text := Some [],
     final_status := Some (PStr (ustr ''PASS'')),
     final_report := Some (PStr (ustr ''ok'')) \<rparr>"

section \<open>The wording of the specification\<close>

text \<open>
  ``The first (best) alternative's transcript of each speech segment that has at least
  one alternative'', in segment order; and their space-joined concatenation, trimmed.
\<close>

definition best_alternatives :: "SpeechTranscription list \<Rightarrow> pystr list" where
  "best_alternatives segs =
     map (\<lambda>s. alt_transcript (hd (alternatives s))) (filter (\<lambda>s. alternatives s \<noteq> []) segs)"

definition speech_transcript :: "VideoAnnotationResults \<Rightarrow> pystr" where
  "speech_transcript a = strip (join (ustr '' '') (best_alternatives (speech_transcriptions a)))"

text \<open>``The space-joined OCR text''.\<close>

definition ocr_joined :: "VideoAnnotationResults \<Rightarrow> pystr" where
  "ocr_joined a = join (ustr '' '') (map ta_text (text_annotations a))"

text \<open>
  ``With non-ASCII characters stripped and runs of whitespace collapsed to single
  spaces, trimmed at both ends'', read literally: the non-ASCII characters are removed.
\<close>

definition spec_cleaned_ocr :: "pystr \<Rightarrow> pystr" where
  "spec_cleaned_ocr raw_ocr = strip (sub_runs is_space (filter (\<lambda>c. \<not> non_ascii c) raw_ocr))"

text \<open>
  A video with one silent speech segment and the on-screen text SALE; a video without
  speech whose on-screen text is the word cafes with U+00E9 for its e.
\<close>

definition silent_annotations :: VideoAnnotationResults where
  "silent_annotations = \<lparr>
     speech_transcriptions = [\<lparr> alternatives = [\<lparr> alt_transcript = [] \<rparr>] \<rparr>],
     text_annotations = [\<lparr> ta_text = ustr ''SALE'' \<rparr>],
     segment_label_annotations = [] \<rparr>"

definition accented_annotations :: VideoAnnotationResults where
  "accented_annotations = \<lparr>
     speech_transcriptions = [],
     text_annotations = [\<lparr> ta_text = [99, 97, 102, 233, 115] \<rparr>],
     segment_label_annotations = [] \<rparr>"

text \<open>Two more videos: on-screen text only, and speech with a label annotation.\<close>

definition banner_annotations :: VideoAnnotationResults where
  "banner_annotations = \<lparr>
     speech_transcriptions = [],
     text_annotations = [\<lparr> ta_text = ustr ''SALE  50%'' \<rparr>, \<lparr> ta_text = [8482, 8482] \<rparr>,
                         \<lparr> ta_text = ustr ''off '' \<rparr>],
     segment_label_annotations = [] \<rparr>"

definition spoken_annotations :: VideoAnnotationResults where
  "spoken_annotations = \<lparr>
     speech_transcriptions = [\<lparr> alternatives = [\<lparr> alt_transcript = ustr ''no claims'' \<rparr>,
                                                   \<lparr> alt_transcript = ustr ''know claims'' \<rparr>] \<rparr>,
                              \<lparr> alternatives = [] \<rparr>,
                              \<lparr> alternatives = [\<lparr> alt_transcript = ustr ''here '' \<rparr>] \<rparr>],
     text_annotations = [\<lparr> ta_text = ustr ''SALE'' \<rparr>],
     segment_label_annotations = [\<lparr> segments = [\<lparr> segment =
        \<lparr> start_time_offset = 0, end_time_offset = 12000000 \<rparr> \<rparr>] \<rparr>] \<rparr>"

text \<open>
  A response that wraps a payload in a markdown code fence: some text, the opening
  fence, the language tag (\<open>json\<close> or nothing), the payload, the closing fence and
  some more text. A payload that itself quotes a fence inside a JSON string.
\<close>

definition fenced_response :: "pystr \<Rightarrow> pystr \<Rightarrow> pystr \<Rightarrow> pystr \<Rightarrow> pystr" where
  "fenced_response pre tag payload post = pre @ fence @ tag @ payload @ fence @ post"

definition quoting_payload :: pystr where
  \<open>quoting_payload = ustr ''{"final_report": "a```b"}''\<close>

text \<open>
  The words of a text: its maximal runs of characters that are not separators. For the
  OCR fallback a separator is a non-ASCII or a whitespace character.
\<close>

definition separator :: "nat \<Rightarrow> bool" where
  "separator c \<longleftrightarrow> non_ascii c \<or> is_space c"

function words :: "(nat \<Rightarrow> bool) \<Rightarrow> pystr \<Rightarrow> pystr list" where
  "words P [] = []"
| "words P (c # cs) =
     (if P c then words P cs
      else (c # takeWhile (\<lambda>x. \<not> P x) cs) # words P (dropWhile (\<lambda>x. \<not> P x) cs))"
  by pat_completeness auto
termination
  by (relation "measure (\<lambda>(P, s). length s)")
     (auto simp: less_Suc_eq_le length_dropWhile_le)

text \<open>\<open>s.rstrip()\<close>\<close>

definition rtrim :: "pystr \<Rightarrow> pystr" where
  "rtrim s = rev (dropWhile is_space (rev s))"

section \<open>The Extraction node\<close>

lemma index_video_node_cases:
  "index_video_node env state =
     (case index_video_try env state of Inr clean_data \<Rightarrow> clean_data | Inl e \<Rightarrow> index_failed e)"
  by (simp add: index_video_node_def)

text \<open>Each step of the node that raises makes the body of the \<open>try\<close> raise.\<close>

lemma try_service_init_raises:
  "service_init env = Some e \<Longrightarrow> index_video_try env state = Inl e"
  by (simp add: index_video_try_def)

lemma try_not_youtube_raises:
  "service_init env = None \<Longrightarrow>
   \<not> contains (ustr ''youtube.com'') (video_url state) \<Longrightarrow>
   \<not> contains (ustr ''youtu.be'') (video_url state) \<Longrightarrow>
   index_video_try env state =
     Inl (Exception (ustr ''Please provide a valid YouTube URL for this test.''))"
  by (simp add: index_video_try_def)

lemma try_download_raises:
  "service_init env = None \<Longrightarrow>
   contains (ustr ''youtube.com'') (video_url state) \<or> contains (ustr ''youtu.be'') (video_url state) \<Longrightarrow>
   download_youtube_video env (video_url state) (local_filename state) = Inl e \<Longrightarrow>
   index_video_try env state = Inl e"
  by (auto simp add: index_video_try_def)

lemma try_upload_raises:
  "service_init env = None \<Longrightarrow>
   contains (ustr ''youtube.com'') (video_url state) \<or> contains (ustr ''youtu.be'') (video_url state) \<Longrightarrow>
   download_youtube_video env (video_url state) (local_filename state) = Inr local_path \<Longrightarrow>
   upload_video env local_path (video_id_input state) = Inl e \<Longrightarrow>
   index_video_try env state = Inl e"
  by (auto simp add: index_video_try_def)

lemma try_cleanup_raises:
  "service_init env = None \<Longrightarrow>
   contains (ustr ''youtube.com'') (video_url state) \<or> contains (ustr ''youtu.be'') (video_url state) \<Longrightarrow>
   download_youtube_video env (video_url state) (local_filename state) = Inr local_path \<Longrightarrow>
   upload_video env local_path (video_id_input state) = Inr gcs_uri \<Longrightarrow>
   cleanup env local_path = Some e \<Longrightarrow>
   index_video_try env state = Inl e"
  by (auto simp add: index_video_try_def)

lemma try_annotate_raises:
  "service_init env = None \<Longrightarrow>
   contains (ustr ''youtube.com'') (video_url state) \<or> contains (ustr ''youtu.be'') (video_url state) \<Longrightarrow>
   download_youtube_video env (video_url state) (local_filename state) = Inr local_path \<Longrightarrow>
   upload_video env local_path (video_id_input state) = Inr gcs_uri \<Longrightarrow>
   cleanup env local_path = None \<Longrightarrow>
   annotate_video env gcs_uri = Inl e \<Longrightarrow>
   index_video_try env state = Inl e"
  by (auto simp add: index_video_try_def)

lemma try_reaches_extract_data:
  "service_init env = None \<Longrightarrow>
   contains (ustr ''youtube.com'') (video_url state) \<or> contains (ustr ''youtu.be'') (video_url state) \<Longrightarrow>
   download_youtube_video env (video_url state) (local_filename state) = Inr local_path \<Longrightarrow>
   upload_video env local_path (video_id_input state) = Inr gcs_uri \<Longrightarrow>
   cleanup env local_path = None \<Longrightarrow>
   annotate_video env gcs_uri = Inr raw_insights \<Longrightarrow>
   index_video_try env state = extract_data (bucket_name env) raw_insights"
  by (auto simp add: index_video_try_def)



text \<open>
  C10. When every step up to the annotation succeeds and the annotation response has
  no annotation results, \<open>extract_data\<close> returns \<open>transcript = ""\<close> and \<open>ocr_text = []\<close>
  without raising, and this is the output of the Extraction node: it has no \<open>errors\<close>
  key and no \<open>final_status\<close> key.
\<close>

theorem no_annotation_results:
  assumes "service_init env = None"
    and "contains (ustr ''youtube.com'') (video_url state) \<or>
         contains (ustr ''youtu.be'') (video_url state)"
    and "download_youtube_video env (video_url state) (local_filename state) = Inr local_path"
    and "upload_video env local_path (video_id_input state) = Inr gcs_uri"
    and "cleanup env local_path = None"
    and "annotate_video env gcs_uri = Inr analysis_result"
    and "annotation_results analysis_result = []"
  shows "extract_data (bucket_name env) analysis_result = Inr \<lparr>
           out_transcript = Some [],
           out_ocr_text = Some [],
           out_video_metadata = None,
           out_compliance_results = None,
           out_final_status = None,
           out_final_report = None,
           out_errors = None \<rparr> \<and>
         index_video_node env state = \<lparr>
           out_transcript = Some [],
           out_ocr_text = Some [],
           out_video_metadata = None,
           out_compliance_results = None,
           out_final_status = None,
           out_final_report = None,
           out_errors = None \<rparr>"
proof -
  have extracted: "extract_data (bucket_name env) analysis_result =
      Inr (empty_output \<lparr> out_transcript := Some [], out_ocr_text := Some [] \<rparr>)"
    using assms(7) by (simp add: extract_data_def)
  have "index_video_try env state = extract_data (bucket_name env) analysis_result"
    using assms(1-6) by (rule try_reaches_extract_data)
  with extracted show ?thesis
    by (simp add: index_video_node_def empty_output_def)
qed

theorem no_annotation_results_witness:
  "annotate_video no_results_env (ustr ''gs://bucket/videos/vid_1.mp4'') =
     Inr \<lparr> annotation_results = [] \<rparr> \<and>
   index_video_node no_results_env sample_state = \<lparr>
     out_transcript = Some [],
     out_ocr_text = Some [],
     out_video_metadata = None,
     out_compliance_results = None,
     out_final_status = None,
     out_final_report = None,
     out_errors = None \<rparr>"
proof -
  have 1: "service_init no_results_env = None"
    by (simp add: no_results_env_def sample_env_def)
  have 2: "contains (ustr ''youtube.com'') (video_url sample_state) \<or>
           contains (ustr ''youtu.be'') (video_url sample_state)"
    by (simp add: sample_state_def ustr_def)
  have 3: "download_youtube_video no_results_env (video_url sample_state)
             (local_filename sample_state) = Inr (ustr ''temp_vid_1.mp4'')"
    by (simp add: download_youtube_video_def no_results_env_def sample_env_def local_filename_def
        video_id_input_def sample_state_def ustr_def)
  have 4: "upload_video no_results_env (ustr ''temp_vid_1.mp4'') (video_id_input sample_state) =
           Inr (ustr ''gs://bucket/videos/vid_1.mp4'')"
    by (simp add: upload_video_def no_results_env_def sample_env_def video_id_input_def
        sample_state_def fmt_opt_def ustr_def)
  have 5: "cleanup no_results_env (ustr ''temp_vid_1.mp4'') = None"
    by (simp add: cleanup_def no_results_env_def sample_env_def)
  have 6: "annotate_video no_results_env (ustr ''gs://bucket/videos/vid_1.mp4'') =
           Inr \<lparr> annotation_results = [] \<rparr>"
    by (simp add: annotate_video_def no_results_env_def sample_env_def)
  have 7: "annotation_results \<lparr> annotation_results = [] \<rparr> = []"
    by simp
  from no_annotation_results [OF 1 2 3 4 5 6 7] 6 show ?thesis
    by simp
qed

section \<open>The Judgment node\<close>

text \<open>
  C3. When the transcript of the input state is absent or empty, the Judgment node
  makes no external call at all (its call log is empty: no client is built, nothing is
  retrieved, the model is not invoked) and returns \<open>final_status = "FAIL"\<close> with the
  report that the audit was skipped.
\<close>

theorem empty_transcript_short_circuit:
  assumes "transcript state = None \<or> transcript state = Some []"
  shows "audit_content_node env state =
           ([], Inr \<lparr>
              out_transcript = None,
              out_ocr_text = None,
              out_video_metadata = None,
              out_compliance_results = None,
              out_final_status = Some (PStr (ustr ''FAIL'')),
              out_final_report =
                Some (PStr (ustr ''Audit skipped because video processing failed (No Transcript).'')),
              out_errors = None \<rparr>)"
  using assms by (auto simp add: audit_content_node_def audit_skipped_def empty_output_def)

theorem empty_transcript_short_circuit_witness:
  "transcript sample_state = None \<and>
   audit_content_node offline_env sample_state =
     ([], Inr \<lparr>
        out_transcript = None,
        out_ocr_text = None,
        out_video_metadata = None,
        out_compliance_results = None,
        out_final_status = Some (PStr (ustr ''FAIL'')),
        out_final_report =
          Some (PStr (ustr ''Audit skipped because video processing failed (No Transcript).'')),
        out_errors = None \<rparr>)"
proof -
  have absent: "transcript sample_state = None"
    by (simp add: sample_state_def)
  then have "transcript sample_state = None \<or> transcript sample_state = Some []" ..
  from empty_transcript_short_circuit [OF this] absent show ?thesis
    by simp
qed

text \<open>The node on a state with a transcript: retrieval, then the guarded call of the model.\<close>

lemma audit_node_nonempty:
  assumes "transcript state = Some t" and "t \<noteq> []"
  shows "audit_content_node env state =
     (case retrieve_rules env (query_text t (case ocr_text state of None \<Rightarrow> [] | Some l \<Rightarrow> l)) of
        (log, Inl e) \<Rightarrow> (log, Inl e)
      | (log, Inr docs) \<Rightarrow>
          (log @ [Invoke (system_prompt (join [10, 10] docs))
                    (user_message env state t (case ocr_text state of None \<Rightarrow> [] | Some l \<Rightarrow> l))],
           Inr (case llm_invoke env log (system_prompt (join [10, 10] docs))
                       (user_message env state t (case ocr_text state of None \<Rightarrow> [] | Some l \<Rightarrow> l)) of
                  Inl e \<Rightarrow> audit_failed e
                | Inr response_content \<Rightarrow>
                    (case parse_audit env response_content of
                       Inl e \<Rightarrow> audit_failed e
                     | Inr out \<Rightarrow> out))))"
  using assms by (simp add: audit_content_node_def Let_def)






text \<open>A failure of the model call or of the parsing is caught inside the node.\<close>

lemma model_failure_caught:
  assumes "transcript state = Some t" and "t \<noteq> []"
    and "ocr = (case ocr_text state of None \<Rightarrow> [] | Some l \<Rightarrow> l)"
    and "retrieve_rules env (query_text t ocr) = (log, Inr docs)"
    and "llm_invoke env log (system_prompt (join [10, 10] docs)) (user_message env state t ocr) =
           Inl e"
  shows "snd (audit_content_node env state) = Inr \<lparr>
           out_transcript = None,
           out_ocr_text = None,
           out_video_metadata = None,
           out_compliance_results = None,
           out_final_status = Some (PStr (ustr ''FAIL'')),
           out_final_report = None,
           out_errors = Some [str_of e] \<rparr>"
  using assms(3-5)
  by (simp add: audit_node_nonempty [OF assms(1,2)] audit_failed_def empty_output_def)

lemma parse_failure_caught:
  assumes "transcript state = Some t" and "t \<noteq> []"
    and "ocr = (case ocr_text state of None \<Rightarrow> [] | Some l \<Rightarrow> l)"
    and "retrieve_rules env (query_text t ocr) = (log, Inr docs)"
    and "llm_invoke env log (system_prompt (join [10, 10] docs)) (user_message env state t ocr) =
           Inr response_content"
    and "json_loads env (strip (clean_markdown response_content)) = Inl e"
  shows "snd (audit_content_node env state) = Inr \<lparr>
           out_transcript = None,
           out_ocr_text = None,
           out_video_metadata = None,
           out_compliance_results = None,
           out_final_status = Some (PStr (ustr ''FAIL'')),
           out_final_report = None,
           out_errors = Some [str_of e] \<rparr>"
  using assms(3-6)
  by (simp add: audit_node_nonempty [OF assms(1,2)] parse_audit_def audit_failed_def
      empty_output_def)

text \<open>
  C4, at a failing input. The retriever is called outside the \<open>try\<close> block of the
  Judgment node: when it raises, the exception leaves the node, which returns no
  \<open>errors\<close> entry and no \<open>final_status\<close>.
\<close>

theorem retrieval_failure_propagates:
  "audit_content_node retrieval_failing_env judged_state =
     ([InitLLM, InitRetriever, Retrieve (ustr ''hello SALE'')],
      Inl (Exception (ustr ''503 Service Unavailable'')))"
  by (simp add: audit_content_node_def judged_state_def sample_state_def retrieve_rules_def
      retrieval_failing_env_def sample_env_def query_text_def ustr_def)

text \<open>Whenever the retrieval part of the node raises, the exception leaves the node.\<close>

lemma retrieval_exception_leaves_node:
  assumes "transcript state = Some t" and "t \<noteq> []"
    and "retrieve_rules env (query_text t (case ocr_text state of None \<Rightarrow> [] | Some l \<Rightarrow> l)) =
           (log, Inl e)"
  shows "audit_content_node env state = (log, Inl e)"
  using assms(3) by (simp add: audit_node_nonempty [OF assms(1,2)])

section \<open>The pipeline\<close>

text \<open>One merge, field by field, written out.\<close>

lemma apply_update_fields:
  assumes "apply_update state out = Inr state'"
  shows "compliance_results state' =
           compliance_results state @
           (case out_compliance_results out of Some (PList entries) \<Rightarrow> entries | _ \<Rightarrow> [])"
    and "errors state' =
           errors state @ (case out_errors out of Some entries \<Rightarrow> entries | None \<Rightarrow> [])"
    and "transcript state' =
           (case out_transcript out of Some v \<Rightarrow> Some v | None \<Rightarrow> transcript state)"
    and "ocr_text state' =
           (case out_ocr_text out of Some v \<Rightarrow> Some v | None \<Rightarrow> ocr_text state)"
    and "video_metadata state' =
           (case out_video_metadata out of Some v \<Rightarrow> Some v | None \<Rightarrow> video_metadata state)"
    and "final_status state' =
           (case out_final_status out of Some v \<Rightarrow> Some v | None \<Rightarrow> final_status state)"
    and "final_report state' =
           (case out_final_report out of Some v \<Rightarrow> Some v | None \<Rightarrow> final_report state)"
    and "video_url state' = video_url state"
    and "video_id state' = video_id state"
    and "local_file_path state' = local_file_path state"
proof -
  from assms obtain results where
    added: "(case out_compliance_results out of
               None \<Rightarrow> Inr (compliance_results state)
             | Some new \<Rightarrow> operator_add (compliance_results state) new) = Inr results" and
    merged: "state' = state \<lparr>
            transcript := overwrite (transcript state) (out_transcript out),
            ocr_text := overwrite (ocr_text state) (out_ocr_text out),
            video_metadata := overwrite (video_metadata state) (out_video_metadata out),
            compliance_results := results,
            final_status := overwrite (final_status state) (out_final_status out),
            final_report := overwrite (final_report state) (out_final_report out),
            errors := errors state @ (case out_errors out of None \<Rightarrow> [] | Some es \<Rightarrow> es) \<rparr>"
    by (auto simp add: apply_update_def split: sum.splits)
  from added have "results =
      compliance_results state @
      (case out_compliance_results out of Some (PList entries) \<Rightarrow> entries | _ \<Rightarrow> [])"
    by (auto simp add: operator_add_def split: option.splits pyval.splits)
  then show "compliance_results state' =
           compliance_results state @
           (case out_compliance_results out of Some (PList entries) \<Rightarrow> entries | _ \<Rightarrow> [])"
    by (simp add: merged)
  show "errors state' =
           errors state @ (case out_errors out of Some entries \<Rightarrow> entries | None \<Rightarrow> [])"
    by (simp add: merged split: option.splits)
  show "transcript state' =
           (case out_transcript out of Some v \<Rightarrow> Some v | None \<Rightarrow> transcript state)"
    by (simp add: merged overwrite_def)
  show "ocr_text state' =
           (case out_ocr_text out of Some v \<Rightarrow> Some v | None \<Rightarrow> ocr_text state)"
    by (simp add: merged overwrite_def)
  show "video_metadata state' =
           (case out_video_metadata out of Some v \<Rightarrow> Some v | None \<Rightarrow> video_metadata state)"
    by (simp add: merged overwrite_def)
  show "final_status state' =
           (case out_final_status out of Some v \<Rightarrow> Some v | None \<Rightarrow> final_status state)"
    by (simp add: merged overwrite_def)
  show "final_report state' =
           (case out_final_report out of Some v \<Rightarrow> Some v | None \<Rightarrow> final_report state)"
    by (simp add: merged overwrite_def)
  show "video_url state' = video_url state"
    and "video_id state' = video_id state"
    and "local_file_path state' = local_file_path state"
    by (simp_all add: merged)
qed

text \<open>
  C1. In every run of the pipeline that returns a final state, with \<open>out1\<close> the output
  of the Extraction node on the caller's state and \<open>out2\<close> the output of the Judgment
  node on the merged state: \<open>compliance_results\<close> is the caller's list, followed by the
  entries of \<open>out1\<close>, followed by the entries of \<open>out2\<close>, and \<open>errors\<close> likewise, so
  that nothing is lost or overwritten. Every other field that a node can write holds
  the value of \<open>out2\<close> if \<open>out2\<close> has the key, else the value of \<open>out1\<close> if \<open>out1\<close>
  has the key, else the caller's value; the three input fields are the caller's. The
  state the Judgment node runs on is described in the same way.
\<close>

theorem additive_merge:
  assumes "graph_invoke env initial_inputs = Inr final"
    and "out1 = index_video_node env initial_inputs"
  shows "\<exists>state1 out2.
      apply_update initial_inputs out1 = Inr state1 \<and>
      snd (audit_content_node env state1) = Inr out2 \<and>
      compliance_results state1 =
        compliance_results initial_inputs @
        (case out_compliance_results out1 of Some (PList entries) \<Rightarrow> entries | _ \<Rightarrow> []) \<and>
      errors state1 =
        errors initial_inputs @
        (case out_errors out1 of Some entries \<Rightarrow> entries | None \<Rightarrow> []) \<and>
      transcript state1 =
        (case out_transcript out1 of Some v \<Rightarrow> Some v | None \<Rightarrow> transcript initial_inputs) \<and>
      ocr_text state1 =
        (case out_ocr_text out1 of Some v \<Rightarrow> Some v | None \<Rightarrow> ocr_text initial_inputs) \<and>
      video_metadata state1 =
        (case out_video_metadata out1 of Some v \<Rightarrow> Some v
         | None \<Rightarrow> video_metadata initial_inputs) \<and>
      final_status state1 =
        (case out_final_status out1 of Some v \<Rightarrow> Some v | None \<Rightarrow> final_status initial_inputs) \<and>
      final_report state1 =
        (case out_final_report out1 of Some v \<Rightarrow> Some v | None \<Rightarrow> final_report initial_inputs) \<and>
      compliance_results final =
        compliance_results initial_inputs @
        (case out_compliance_results out1 of Some (PList entries) \<Rightarrow> entries | _ \<Rightarrow> []) @
        (case out_compliance_results out2 of Some (PList entries) \<Rightarrow> entries | _ \<Rightarrow> []) \<and>
      errors final =
        errors initial_inputs @
        (case out_errors out1 of Some entries \<Rightarrow> entries | None \<Rightarrow> []) @
        (case out_errors out2 of Some entries \<Rightarrow> entries | None \<Rightarrow> []) \<and>
      transcript final =
        (case out_transcript out2 of Some v \<Rightarrow> Some v
         | None \<Rightarrow> (case out_transcript out1 of Some v \<Rightarrow> Some v
                    | None \<Rightarrow> transcript initial_inputs)) \<and>
      ocr_text final =
        (case out_ocr_text out2 of Some v \<Rightarrow> Some v
         | None \<Rightarrow> (case out_ocr_text out1 of Some v \<Rightarrow> Some v
                    | None \<Rightarrow> ocr_text initial_inputs)) \<and>
      video_metadata final =
        (case out_video_metadata out2 of Some v \<Rightarrow> Some v
         | None \<Rightarrow> (case out_video_metadata out1 of Some v \<Rightarrow> Some v
                    | None \<Rightarrow> video_metadata initial_inputs)) \<and>
      final_status final =
        (case out_final_status out2 of Some v \<Rightarrow> Some v
         | None \<Rightarrow> (case out_final_status out1 of Some v \<Rightarrow> Some v
                    | None \<Rightarrow> final_status initial_inputs)) \<and>
      final_report final =
        (case out_final_report out2 of Some v \<Rightarrow> Some v
         | None \<Rightarrow> (case out_final_report out1 of Some v \<Rightarrow> Some v
                    | None \<Rightarrow> final_report initial_inputs)) \<and>
      video_url final = video_url initial_inputs \<and>
      video_id final = video_id initial_inputs \<and>
      local_file_path final = local_file_path initial_inputs"
proof -
  from assms obtain state1 where
    first: "apply_update initial_inputs out1 = Inr state1"
    by (auto simp add: graph_invoke_def split: sum.splits)
  with assms obtain out2 where
    node2: "snd (audit_content_node env state1) = Inr out2" and
    second: "apply_update state1 out2 = Inr final"
    by (auto simp add: graph_invoke_def split: sum.splits)
  note merged1 = apply_update_fields [OF first]
  note merged2 = apply_update_fields [OF second]
  show ?thesis
    by (intro exI [of _ state1] exI [of _ out2]) (simp add: first node2 merged2 merged1 cong: option.case_cong)
qed

text \<open>
  The end-to-end example of the specification: a single speech segment ``no claims
  here'' and a model that answers \<open>PASS\<close> with no findings.
\<close>

lemma passing_run:
  "graph_invoke passing_env sample_state = Inr passing_final"
  by (simp add: passing_final_def graph_invoke_def passing_env_def sample_env_def sample_state_def
      index_video_node_def index_video_try_def download_youtube_video_def upload_video_def
      cleanup_def annotate_video_def extract_data_def speech_response_def duration_of_def
      local_filename_def video_id_input_def fmt_opt_def empty_output_def
      apply_update_def overwrite_def operator_add_def
      audit_content_node_def retrieve_rules_def one_rule_def query_text_def
      parse_audit_def clean_markdown_def search_fence_def fence_def dict_get_def
      sample_json_loads_def strip_def is_space_def ustr_def Let_def)

text \<open>Two more runs: a retriever that raises, and an annotation without results.\<close>

lemma retrieval_failure_ends_run:
  "graph_invoke retrieval_failing_env sample_state = Inl (Exception (ustr ''503 Service Unavailable''))"
  by (simp add: graph_invoke_def retrieval_failing_env_def sample_env_def sample_state_def
      index_video_node_def index_video_try_def download_youtube_video_def upload_video_def
      cleanup_def annotate_video_def extract_data_def speech_response_def duration_of_def
      local_filename_def video_id_input_def fmt_opt_def empty_output_def
      apply_update_def overwrite_def
      audit_content_node_def retrieve_rules_def query_text_def
      strip_def is_space_def ustr_def Let_def)

lemma no_results_run:
  "graph_invoke no_results_env sample_state = Inr (sample_state \<lparr>
     transcript := Some [],
     ocr_text := Some [],
     final_status := Some (PStr (ustr ''FAIL'')),
     final_report :=
       Some (PStr (ustr ''Audit skipped because video processing failed (No Transcript).'')) \<rparr>)"
  by (simp add: graph_invoke_def no_results_env_def sample_env_def sample_state_def
      index_video_node_def index_video_try_def download_youtube_video_def upload_video_def
      cleanup_def annotate_video_def extract_data_def
      local_filename_def video_id_input_def fmt_opt_def empty_output_def
      apply_update_def overwrite_def audit_skipped_def
      audit_content_node_def ustr_def Let_def)

text \<open>
  Two runs from a caller's state that already holds a value in every field. In the
  first the model reports one issue: the caller's issue is kept in front of it, and
  the status, report, transcript, on-screen text and metadata are the nodes'. In the
  second the download fails: the Extraction node and then the Judgment node write the
  status, the error is appended to the caller's, and the caller's issue is kept.
\<close>

lemma flagging_run_outputs:
  "index_video_node flagging_env stale_state = \<lparr>
     out_transcript = Some (ustr ''best price guaranteed''),
     out_ocr_text = Some [],
     out_video_metadata = Some extracted_metadata,
     out_compliance_results = None,
     out_final_status = None,
     out_final_report = None,
     out_errors = None \<rparr>"
  by (simp add: flagging_env_def sample_env_def stale_state_def sample_state_def
      extracted_metadata_def
      index_video_node_def index_video_try_def download_youtube_video_def upload_video_def
      cleanup_def annotate_video_def extract_data_def speech_response_def duration_of_def
      local_filename_def video_id_input_def fmt_opt_def empty_output_def
      strip_def is_space_def ustr_def Let_def)

lemma failing_run_outputs:
  "index_video_node download_failing_env stale_state = \<lparr>
     out_transcript = Some [],
     out_ocr_text = Some [],
     out_video_metadata = None,
     out_compliance_results = None,
     out_final_status = Some (PStr (ustr ''FAIL'')),
     out_final_report = None,
     out_errors = Some [ustr ''YouTube Download Failed: HTTP Error 403''] \<rparr>"
  by (simp add: download_failing_env_def sample_env_def stale_state_def sample_state_def
      index_video_node_def index_video_try_def index_failed_def download_youtube_video_def
      local_filename_def video_id_input_def empty_output_def ustr_def)

lemma flagging_run: "graph_invoke flagging_env stale_state = Inr flagged_final"
  unfolding graph_invoke_def flagging_run_outputs
  by (simp add: flagged_final_def apply_update_def overwrite_def stale_state_def sample_state_def
      audit_content_node_def retrieve_rules_def one_rule_def query_text_def
      flagging_env_def sample_env_def
      parse_audit_def clean_markdown_def fence_def dict_get_def operator_add_def
      sample_json_loads_def strip_def is_space_def empty_output_def ustr_def Let_def)

lemma failing_run: "graph_invoke download_failing_env stale_state = Inr failed_final"
  unfolding graph_invoke_def failing_run_outputs
  by (simp add: failed_final_def apply_update_def overwrite_def stale_state_def sample_state_def
      audit_content_node_def audit_skipped_def empty_output_def)

theorem additive_merge_witness:
  "(graph_invoke flagging_env stale_state = Inr flagged_final \<and>
      compliance_results flagged_final = [old_issue, new_issue] \<and>
      errors flagged_final = [ustr ''earlier error''] \<and>
      transcript flagged_final = Some (ustr ''best price guaranteed'') \<and>
      ocr_text flagged_final = Some [] \<and>
      video_metadata flagged_final = Some extracted_metadata \<and>
      final_status flagged_final = Some (PStr (ustr ''FAIL'')) \<and>
      final_report flagged_final = Some (PStr (ustr ''1 issue''))) \<and>
   (graph_invoke download_failing_env stale_state = Inr failed_final \<and>
      compliance_results failed_final = [old_issue] \<and>
      errors failed_final =
        [ustr ''earlier error'', ustr ''YouTube Download Failed: HTTP Error 403''] \<and>
      transcript failed_final = Some [] \<and>
      ocr_text failed_final = Some [] \<and>
      video_metadata failed_final = video_metadata stale_state \<and>
      final_status failed_final = Some (PStr (ustr ''FAIL'')) \<and>
      final_report failed_final =
        Some (PStr (ustr ''Audit skipped because video processing failed (No Transcript).'')))"
proof (rule conjI)
  define out1 where "out1 = index_video_node flagging_env stale_state"
  have out1: "out1 = \<lparr>
     out_transcript = Some (ustr ''best price guaranteed''),
     out_ocr_text = Some [],
     out_video_metadata = Some extracted_metadata,
     out_compliance_results = None,
     out_final_status = None,
     out_final_report = None,
     out_errors = None \<rparr>"
    by (simp add: out1_def flagging_run_outputs)
  have run: "graph_invoke flagging_env stale_state = Inr flagged_final"
    by (rule flagging_run)
  from additive_merge [OF run out1_def] obtain state1 out2 where
    node2: "snd (audit_content_node flagging_env state1) = Inr out2" and
    t1: "transcript state1 =
        (case out_transcript out1 of Some v \<Rightarrow> Some v | None \<Rightarrow> transcript stale_state)" and
    o1: "ocr_text state1 =
        (case out_ocr_text out1 of Some v \<Rightarrow> Some v | None \<Rightarrow> ocr_text stale_state)" and
    fields: "compliance_results flagged_final =
        compliance_results stale_state @
        (case out_compliance_results out1 of Some (PList entries) \<Rightarrow> entries | _ \<Rightarrow> []) @
        (case out_compliance_results out2 of Some (PList entries) \<Rightarrow> entries | _ \<Rightarrow> [])"
      "errors flagged_final =
        errors stale_state @
        (case out_errors out1 of Some entries \<Rightarrow> entries | None \<Rightarrow> []) @
        (case out_errors out2 of Some entries \<Rightarrow> entries | None \<Rightarrow> [])"
      "transcript flagged_final =
        (case out_transcript out2 of Some v \<Rightarrow> Some v
         | None \<Rightarrow> (case out_transcript out1 of Some v \<Rightarrow> Some v
                    | None \<Rightarrow> transcript stale_state))"
      "ocr_text flagged_final =
        (case out_ocr_text out2 of Some v \<Rightarrow> Some v
         | None \<Rightarrow> (case out_ocr_text out1 of Some v \<Rightarrow> Some v
                    | None \<Rightarrow> ocr_text stale_state))"
      "video_metadata flagged_final =
        (case out_video_metadata out2 of Some v \<Rightarrow> Some v
         | None \<Rightarrow> (case out_video_metadata out1 of Some v \<Rightarrow> Some v
                    | None \<Rightarrow> video_metadata stale_state))"
      "final_status flagged_final =
        (case out_final_status out2 of Some v \<Rightarrow> Some v
         | None \<Rightarrow> (case out_final_status out1 of Some v \<Rightarrow> Some v
                    | None \<Rightarrow> final_status stale_state))"
      "final_report flagged_final =
        (case out_final_report out2 of Some v \<Rightarrow> Some v
         | None \<Rightarrow> (case out_final_report out1 of Some v \<Rightarrow> Some v
                    | None \<Rightarrow> final_report stale_state))"
    by blast
  from t1 o1 have "transcript state1 = Some (ustr ''best price guaranteed'')"
    and "ocr_text state1 = Some []"
    by (simp_all add: out1)
  then have "snd (audit_content_node flagging_env state1) = Inr \<lparr>
     out_transcript = None,
     out_ocr_text = None,
     out_video_metadata = None,
     out_compliance_results = Some (PList [new_issue]),
     out_final_status = Some (PStr (ustr ''FAIL'')),
     out_final_report = Some (PStr (ustr ''1 issue'')),
     out_errors = None \<rparr>"
    by (simp add: audit_content_node_def retrieve_rules_def one_rule_def query_text_def
        flagging_env_def sample_env_def
        parse_audit_def clean_markdown_def fence_def dict_get_def
        sample_json_loads_def strip_def is_space_def empty_output_def ustr_def Let_def)
  with node2 have out2: "out2 = \<lparr>
     out_transcript = None,
     out_ocr_text = None,
     out_video_metadata = None,
     out_compliance_results = Some (PList [new_issue]),
     out_final_status = Some (PStr (ustr ''FAIL'')),
     out_final_report = Some (PStr (ustr ''1 issue'')),
     out_errors = None \<rparr>"
    by simp
  from run fields show "graph_invoke flagging_env stale_state = Inr flagged_final \<and>
      compliance_results flagged_final = [old_issue, new_issue] \<and>
      errors flagged_final = [ustr ''earlier error''] \<and>
      transcript flagged_final = Some (ustr ''best price guaranteed'') \<and>
      ocr_text flagged_final = Some [] \<and>
      video_metadata flagged_final = Some extracted_metadata \<and>
      final_status flagged_final = Some (PStr (ustr ''FAIL'')) \<and>
      final_report flagged_final = Some (PStr (ustr ''1 issue''))"
    by (simp add: out1 out2 stale_state_def sample_state_def)
next
  define out1 where "out1 = index_video_node download_failing_env stale_state"
  have out1: "out1 = \<lparr>
     out_transcript = Some [],
     out_ocr_text = Some [],
     out_video_metadata = None,
     out_compliance_results = None,
     out_final_status = Some (PStr (ustr ''FAIL'')),
     out_final_report = None,
     out_errors = Some [ustr ''YouTube Download Failed: HTTP Error 403''] \<rparr>"
    by (simp add: out1_def failing_run_outputs)
  have run: "graph_invoke download_failing_env stale_state = Inr failed_final"
    by (rule failing_run)
  from additive_merge [OF run out1_def] obtain state1 out2 where
    node2: "snd (audit_content_node download_failing_env state1) = Inr out2" and
    t1: "transcript state1 =
        (case out_transcript out1 of Some v \<Rightarrow> Some v | None \<Rightarrow> transcript stale_state)" and
    fields: "compliance_results failed_final =
        compliance_results stale_state @
        (case out_compliance_results out1 of Some (PList entries) \<Rightarrow> entries | _ \<Rightarrow> []) @
        (case out_compliance_results out2 of Some (PList entries) \<Rightarrow> entries | _ \<Rightarrow> [])"
      "errors failed_final =
        errors stale_state @
        (case out_errors out1 of Some entries \<Rightarrow> entries | None \<Rightarrow> []) @
        (case out_errors out2 of Some entries \<Rightarrow> entries | None \<Rightarrow> [])"
      "transcript failed_final =
        (case out_transcript out2 of Some v \<Rightarrow> Some v
         | None \<Rightarrow> (case out_transcript out1 of Some v \<Rightarrow> Some v
                    | None \<Rightarrow> transcript stale_state))"
      "ocr_text failed_final =
        (case out_ocr_text out2 of Some v \<Rightarrow> Some v
         | None \<Rightarrow> (case out_ocr_text out1 of Some v \<Rightarrow> Some v
                    | None \<Rightarrow> ocr_text stale_state))"
      "video_metadata failed_final =
        (case out_video_metadata out2 of Some v \<Rightarrow> Some v
         | None \<Rightarrow> (case out_video_metadata out1 of Some v \<Rightarrow> Some v
                    | None \<Rightarrow> video_metadata stale_state))"
      "final_status failed_final =
        (case out_final_status out2 of Some v \<Rightarrow> Some v
         | None \<Rightarrow> (case out_final_status out1 of Some v \<Rightarrow> Some v
                    | None \<Rightarrow> final_status stale_state))"
      "final_report failed_final =
        (case out_final_report out2 of Some v \<Rightarrow> Some v
         | None \<Rightarrow> (case out_final_report out1 of Some v \<Rightarrow> Some v
                    | None \<Rightarrow> final_report stale_state))"
    by blast
  from t1 have "transcript state1 = Some []"
    by (simp add: out1)
  then have "audit_content_node download_failing_env state1 = ([], Inr audit_skipped)"
    by (simp add: audit_content_node_def)
  with node2 have out2: "out2 = audit_skipped"
    by simp
  from run fields show "graph_invoke download_failing_env stale_state = Inr failed_final \<and>
      compliance_results failed_final = [old_issue] \<and>
      errors failed_final =
        [ustr ''earlier error'', ustr ''YouTube Download Failed: HTTP Error 403''] \<and>
      transcript failed_final = Some [] \<and>
      ocr_text failed_final = Some [] \<and>
      video_metadata failed_final = video_metadata stale_state \<and>
      final_status failed_final = Some (PStr (ustr ''FAIL'')) \<and>
      final_report failed_final =
        Some (PStr (ustr ''Audit skipped because video processing failed (No Transcript).''))"
    by (simp add: out1 out2 audit_skipped_def empty_output_def stale_state_def sample_state_def)
qed

section \<open>The extracted transcript\<close>

lemma transcript_parts_best: "transcript_parts segs = best_alternatives segs"
  by (induction segs) (auto simp add: best_alternatives_def split: list.splits)

text \<open>
  \<open>extract_data\<close> on a response with at least one annotation result: it raises exactly
  when the duration lookup does, and otherwise returns the three keys.
\<close>

lemma extract_data_first_result:
  assumes "annotation_results r = a # rest"
  shows "extract_data b r =
     (case duration_of a of
        Inl e \<Rightarrow> Inl e
      | Inr d \<Rightarrow> Inr \<lparr>
          out_transcript =
            Some (if speech_transcript a = [] \<and> text_annotations a \<noteq> []
                  then cleaned_ocr (ocr_joined a) else speech_transcript a),
          out_ocr_text = Some (map ta_text (text_annotations a)),
          out_video_metadata = Some \<lparr> duration = d, platform = ustr ''youtube'',
            source_uri = ustr ''gs://'' @ fmt_opt b @ ustr ''/...'' \<rparr>,
          out_compliance_results = None,
          out_final_status = None,
          out_final_report = None,
          out_errors = None \<rparr>)"
  using assms
  by (auto simp add: extract_data_def speech_transcript_def ocr_joined_def transcript_parts_best
      empty_output_def Let_def split: sum.splits)

text \<open>
  C8, as stated, fails: with one speech transcription whose best alternative is empty
  and the on-screen text SALE, the joined speech text is empty but the extracted
  transcript is SALE.
\<close>

theorem speech_overridden_counterexample:
  "speech_transcriptions silent_annotations \<noteq> [] \<and>
   speech_transcript silent_annotations = [] \<and>
   map_sum id out_transcript
     (extract_data (Some (ustr ''bucket'')) \<lparr> annotation_results = [silent_annotations] \<rparr>) =
     Inr (Some (ustr ''SALE'')) \<and>
   map_sum id out_transcript
     (extract_data (Some (ustr ''bucket'')) \<lparr> annotation_results = [silent_annotations] \<rparr>) \<noteq>
     Inr (Some (speech_transcript silent_annotations))"
  by (simp add: extract_data_def silent_annotations_def speech_transcript_def best_alternatives_def
      cleaned_ocr_def duration_of_def empty_output_def strip_def is_space_def non_ascii_def ustr_def)

text \<open>
  C8, amended. For the first annotation result of a response, when the space-joined,
  trimmed text of the best alternatives is not empty, or there are no text annotations,
  \<open>extract_data\<close> returns that text as the transcript (it raises only when the duration
  lookup does).
\<close>

theorem speech_transcript_extracted:
  assumes "annotation_results r = a # rest"
    and "speech_transcript a \<noteq> [] \<or> text_annotations a = []"
  shows "extract_data b r =
     (case duration_of a of
        Inl e \<Rightarrow> Inl e
      | Inr d \<Rightarrow> Inr \<lparr>
          out_transcript = Some (speech_transcript a),
          out_ocr_text = Some (map ta_text (text_annotations a)),
          out_video_metadata = Some \<lparr> duration = d, platform = ustr ''youtube'',
            source_uri = ustr ''gs://'' @ fmt_opt b @ ustr ''/...'' \<rparr>,
          out_compliance_results = None,
          out_final_status = None,
          out_final_report = None,
          out_errors = None \<rparr>)"
  using assms(2) by (auto simp add: extract_data_first_result [OF assms(1)] split: sum.splits)

theorem speech_transcript_extracted_witness:
  "speech_transcript spoken_annotations = ustr ''no claims here'' \<and>
   extract_data (Some (ustr ''bucket'')) \<lparr> annotation_results = [spoken_annotations] \<rparr> =
     Inr \<lparr>
       out_transcript = Some (ustr ''no claims here''),
       out_ocr_text = Some [ustr ''SALE''],
       out_video_metadata = Some \<lparr> duration = TotalSeconds 12000000, platform = ustr ''youtube'',
         source_uri = ustr ''gs://bucket/...'' \<rparr>,
       out_compliance_results = None,
       out_final_status = None,
       out_final_report = None,
       out_errors = None \<rparr>"
proof -
  have 1: "annotation_results \<lparr> annotation_results = [spoken_annotations] \<rparr> = spoken_annotations # []"
    by simp
  have said: "speech_transcript spoken_annotations = ustr ''no claims here''"
    by (simp add: speech_transcript_def spoken_annotations_def best_alternatives_def strip_def
        is_space_def ustr_def)
  then have 2: "speech_transcript spoken_annotations \<noteq> [] \<or> text_annotations spoken_annotations = []"
    by (simp add: ustr_def)
  have d: "duration_of spoken_annotations = Inr (TotalSeconds 12000000)"
    by (simp add: duration_of_def spoken_annotations_def)
  have t: "map ta_text (text_annotations spoken_annotations) = [ustr ''SALE'']"
    by (simp add: spoken_annotations_def)
  from speech_transcript_extracted [OF 1 2, of "Some (ustr ''bucket'')"] said show ?thesis
    by (simp add: d t fmt_opt_def ustr_def)
qed

subsection \<open>The cleaning of the OCR text\<close>

text \<open>
  The result of the cleaning is ASCII and has no whitespace at its ends; it is the
  words of the raw text, joined by single spaces. On ASCII text it agrees with the
  literal reading of the specification.
\<close>

lemma sub_runs_set: "set (sub_runs P s) \<subseteq> insert 32 {c \<in> set s. \<not> P c}"
proof (induction P s rule: sub_runs.induct)
  case (1 P)
  then show ?case by simp
next
  case (2 P c cs)
  show ?case
  proof (cases "P c")
    case True
    with 2 have "set (sub_runs P (dropWhile P cs)) \<subseteq> insert 32 {c \<in> set (dropWhile P cs). \<not> P c}"
      by simp
    moreover have "set (dropWhile P cs) \<subseteq> set cs"
      by (auto dest: set_dropWhileD)
    ultimately show ?thesis using True by auto
  next
    case False
    with 2 show ?thesis by auto
  qed
qed

lemma strip_set: "set (strip s) \<subseteq> set s"
  by (auto simp add: strip_def dest!: set_dropWhileD)

lemma cleaned_ocr_ascii: "c \<in> set (cleaned_ocr raw) \<Longrightarrow> \<not> non_ascii c"
proof -
  assume "c \<in> set (cleaned_ocr raw)"
  then have "c \<in> set (sub_runs is_space (sub_runs non_ascii raw))"
    using strip_set by (auto simp add: cleaned_ocr_def)
  then have "c = 32 \<or> c \<in> set (sub_runs non_ascii raw)"
    using sub_runs_set [of is_space "sub_runs non_ascii raw"] by auto
  then have "c = 32 \<or> (c \<in> set raw \<and> \<not> non_ascii c)"
    using sub_runs_set [of non_ascii raw] by auto
  then show ?thesis by (auto simp add: non_ascii_def)
qed

lemma strip_ends:
  assumes "strip s \<noteq> []"
  shows "\<not> is_space (hd (strip s))" and "\<not> is_space (last (strip s))"
proof -
  define l where "l = dropWhile is_space s"
  define r where "r = dropWhile is_space (rev l)"
  have strip: "strip s = rev r"
    by (simp add: strip_def r_def l_def)
  with assms have r: "r \<noteq> []"
    by simp
  then have "\<not> is_space (hd r)"
    unfolding r_def by (rule hd_dropWhile)
  with r show "\<not> is_space (last (strip s))"
    by (simp add: strip last_rev)
  have "rev l = takeWhile is_space (rev l) @ r"
    by (simp add: r_def)
  then have "rev (rev l) = rev (takeWhile is_space (rev l) @ r)"
    by (rule arg_cong)
  then have l: "l = rev r @ rev (takeWhile is_space (rev l))"
    by simp
  with r have "l \<noteq> []"
    by auto
  then have "\<not> is_space (hd l)"
    unfolding l_def by (rule hd_dropWhile)
  moreover from r have "hd (rev r @ rev (takeWhile is_space (rev l))) = hd (rev r)"
    by simp
  ultimately show "\<not> is_space (hd (strip s))"
    using l by (simp add: strip)
qed

lemma sub_runs_none: "\<forall>c \<in> set s. \<not> P c \<Longrightarrow> sub_runs P s = s"
  by (induction s) auto

lemma cleaned_ocr_ascii_text:
  assumes "\<forall>c \<in> set raw. \<not> non_ascii c"
  shows "cleaned_ocr raw = spec_cleaned_ocr raw"
  using assms by (simp add: cleaned_ocr_def spec_cleaned_ocr_def sub_runs_none)

lemma is_space_32: "is_space 32"
  by (simp add: is_space_def)

lemma words_dropWhile: "words P (dropWhile P xs) = words P xs"
  by (induction xs) auto

lemma sub_runs_token:
  "\<forall>c \<in> set tok. \<not> P c \<Longrightarrow> sub_runs P (tok @ rest) = tok @ sub_runs P rest"
  by (induction tok) auto

lemma dropWhile_weaker:
  assumes "\<And>c. Q c \<Longrightarrow> P c"
  shows "dropWhile P (dropWhile Q xs) = dropWhile P xs"
  using assms by (induction xs) auto

lemma ltrim_sub_runs_non_ascii:
  "dropWhile is_space (sub_runs non_ascii xs) = sub_runs non_ascii (dropWhile separator xs)"
proof (induction non_ascii xs rule: sub_runs.induct)
  case 1
  then show ?case by simp
next
  case (2 c cs)
  show ?case
  proof (cases "non_ascii c")
    case True
    have "dropWhile separator (dropWhile non_ascii cs) = dropWhile separator cs"
      by (rule dropWhile_weaker) (simp add: separator_def)
    with True 2 show ?thesis
      by (simp add: separator_def is_space_32)
  next
    case False
    with 2 show ?thesis
      by (simp add: separator_def)
  qed
qed

lemma sub_runs_compose:
  "sub_runs is_space (sub_runs non_ascii raw) = sub_runs separator raw"
proof (induction separator raw rule: sub_runs.induct)
  case 1
  then show ?case by simp
next
  case (2 c cs)
  show ?case
  proof (cases "separator c")
    case False
    with 2 show ?thesis
      by (simp add: separator_def)
  next
    case True
    have "\<exists>y ys. sub_runs non_ascii (c # cs) = y # ys \<and> is_space y"
    proof (cases "non_ascii c")
      case True
      then show ?thesis by (simp add: is_space_32)
    next
      case False
      with \<open>separator c\<close> show ?thesis by (simp add: separator_def)
    qed
    then obtain y ys where y: "sub_runs non_ascii (c # cs) = y # ys" and "is_space y"
      by blast
    then have "sub_runs is_space (sub_runs non_ascii (c # cs)) =
        32 # sub_runs is_space (dropWhile is_space (sub_runs non_ascii (c # cs)))"
      by simp
    also have "dropWhile is_space (sub_runs non_ascii (c # cs)) =
        sub_runs non_ascii (dropWhile separator cs)"
      using True by (simp only: ltrim_sub_runs_non_ascii) simp
    also have "sub_runs is_space (sub_runs non_ascii (dropWhile separator cs)) =
        sub_runs separator (dropWhile separator cs)"
      using True 2 by simp
    finally show ?thesis
      using True by simp
  qed
qed

lemma strip_rtrim: "strip s = rtrim (dropWhile is_space s)"
  by (simp add: strip_def rtrim_def)

lemma rtrim_keep: "s \<noteq> [] \<Longrightarrow> \<not> is_space (last s) \<Longrightarrow> rtrim s = s"
  by (cases s rule: rev_cases) (simp_all add: rtrim_def)

lemma rtrim_append: "rtrim ys \<noteq> [] \<Longrightarrow> rtrim (xs @ ys) = xs @ rtrim ys"
  by (auto simp add: rtrim_def dropWhile_append dropWhile_eq_Nil_conv)

lemma rtrim_space: "is_space c \<Longrightarrow> rtrim (xs @ [c]) = rtrim xs"
  by (simp add: rtrim_def)

lemma rtrim_Cons_nonempty: "\<not> is_space x \<Longrightarrow> rtrim (x # ys) \<noteq> []"
  by (auto simp add: rtrim_def dropWhile_append dropWhile_eq_Nil_conv)


lemma join_Cons: "ws \<noteq> [] \<Longrightarrow> join sep (w # ws) = w @ sep @ join sep ws"
  by (cases ws) simp_all

lemma rtrim_sub_runs:
  assumes sp: "\<And>c. is_space c \<Longrightarrow> P c"
  shows "raw = [] \<or> \<not> P (hd raw) \<Longrightarrow> rtrim (sub_runs P raw) = join [32] (words P raw)"
proof (induction raw rule: length_induct)
  case (1 raw)
  show ?case
  proof (cases raw)
    case Nil
    then show ?thesis by (simp add: rtrim_def)
  next
    case (Cons c cs)
    with "1.prems" have c: "\<not> P c" by simp
    define tok where "tok = c # takeWhile (\<lambda>x. \<not> P x) cs"
    define rest where "rest = dropWhile (\<lambda>x. \<not> P x) cs"
    have raw: "raw = tok @ rest"
      by (simp add: Cons tok_def rest_def)
    have tok: "\<forall>x \<in> set tok. \<not> P x"
      using c by (auto simp add: tok_def dest: set_takeWhileD)
    have runs: "sub_runs P raw = tok @ sub_runs P rest"
      unfolding raw using tok by (rule sub_runs_token)
    have words: "words P raw = tok # words P rest"
      using c by (simp add: Cons tok_def rest_def)
    have "tok \<noteq> []" by (simp add: tok_def)
    with tok have "\<not> P (last tok)" by simp
    with sp have last: "\<not> is_space (last tok)" by blast
    have keep: "rtrim tok = tok"
      using \<open>tok \<noteq> []\<close> last by (rule rtrim_keep)
    show ?thesis
    proof (cases rest)
      case Nil
      with runs words keep show ?thesis by simp
    next
      case rest: (Cons s rs)
      have "\<not> \<not> P (hd rest)"
        unfolding rest_def by (rule hd_dropWhile) (use rest in \<open>simp add: rest_def\<close>)
      with rest have s: "P s" by simp
      define raw2 where "raw2 = dropWhile P rs"
      have runs2: "sub_runs P rest = 32 # sub_runs P raw2"
        using s by (simp add: rest raw2_def)
      have words2: "words P rest = words P raw2"
        using s by (simp add: rest raw2_def words_dropWhile)
      have "length raw2 \<le> length rs"
        unfolding raw2_def by (rule length_dropWhile_le)
      then have shorter: "length raw2 < length raw"
        by (simp add: raw rest)
      have start2: "raw2 = [] \<or> \<not> P (hd raw2)"
        unfolding raw2_def using hd_dropWhile [of P rs] by blast
      from "1.IH" shorter start2 have IH: "rtrim (sub_runs P raw2) = join [32] (words P raw2)"
        by blast
      show ?thesis
      proof (cases raw2)
        case Nil
        have "rtrim (tok @ [32]) = rtrim tok"
          by (rule rtrim_space) (rule is_space_32)
        with Nil runs runs2 words words2 keep show ?thesis by simp
      next
        case (Cons x xs)
        with start2 have x: "\<not> P x" by simp
        with sp have "\<not> is_space x" by blast
        then have "rtrim (x # sub_runs P xs) \<noteq> []"
          by (rule rtrim_Cons_nonempty)
        with x have nonempty: "rtrim (sub_runs P raw2) \<noteq> []"
          by (simp add: Cons)
        have "words P raw2 \<noteq> []"
          using x by (simp add: Cons)
        then have joined: "join [32] (tok # words P raw2) = tok @ [32] @ join [32] (words P raw2)"
          by (rule join_Cons)
        have "sub_runs P raw = (tok @ [32]) @ sub_runs P raw2"
          by (simp add: runs runs2)
        then have "rtrim (sub_runs P raw) = (tok @ [32]) @ rtrim (sub_runs P raw2)"
          by (simp only: rtrim_append [OF nonempty])
        with IH joined words words2 show ?thesis by simp
      qed
    qed
  qed
qed

lemma ltrim_sub_runs:
  assumes sp: "\<And>c. is_space c \<Longrightarrow> P c"
  shows "dropWhile is_space (sub_runs P raw) = sub_runs P (dropWhile P raw)"
proof (cases raw)
  case Nil
  then show ?thesis by simp
next
  case (Cons c cs)
  have stop: "dropWhile is_space (sub_runs P ys) = sub_runs P ys" if "ys = [] \<or> \<not> P (hd ys)" for ys
  proof (cases ys)
    case Nil
    then show ?thesis by simp
  next
    case (Cons y ys')
    with that have "\<not> P y" by simp
    with sp have "\<not> is_space y" by blast
    with \<open>\<not> P y\<close> show ?thesis by (simp add: Cons)
  qed
  show ?thesis
  proof (cases "P c")
    case True
    have "dropWhile P cs = [] \<or> \<not> P (hd (dropWhile P cs))"
      using hd_dropWhile [of P cs] by blast
    from stop [OF this] True show ?thesis
      by (simp add: Cons is_space_32)
  next
    case False
    with sp have "\<not> is_space c" by blast
    with False show ?thesis by (simp add: Cons)
  qed
qed

lemma cleaned_ocr_words: "cleaned_ocr raw = join [32] (words separator raw)"
proof -
  have sp: "\<And>c. is_space c \<Longrightarrow> separator c"
    by (simp add: separator_def)
  have start: "dropWhile separator raw = [] \<or> \<not> separator (hd (dropWhile separator raw))"
    using hd_dropWhile [of separator raw] by blast
  have "cleaned_ocr raw = rtrim (dropWhile is_space (sub_runs separator raw))"
    by (simp add: cleaned_ocr_def sub_runs_compose strip_rtrim)
  also have "\<dots> = rtrim (sub_runs separator (dropWhile separator raw))"
    by (simp add: ltrim_sub_runs [of separator, OF sp])
  also have "\<dots> = join [32] (words separator (dropWhile separator raw))"
    using sp start by (rule rtrim_sub_runs)
  also have "\<dots> = join [32] (words separator raw)"
    by (simp add: words_dropWhile)
  finally show ?thesis .
qed

lemma strip_collapse_words: "strip (sub_runs is_space s) = join [32] (words is_space s)"
proof -
  have start: "dropWhile is_space s = [] \<or> \<not> is_space (hd (dropWhile is_space s))"
    using hd_dropWhile [of is_space s] by blast
  have "strip (sub_runs is_space s) = rtrim (sub_runs is_space (dropWhile is_space s))"
    by (simp add: strip_rtrim ltrim_sub_runs [of is_space])
  also have "\<dots> = join [32] (words is_space (dropWhile is_space s))"
    using start by (intro rtrim_sub_runs) simp_all
  finally show ?thesis
    by (simp add: words_dropWhile)
qed

lemma spec_cleaned_ocr_words:
  "spec_cleaned_ocr raw = join [32] (words is_space (filter (\<lambda>c. \<not> non_ascii c) raw))"
  by (simp add: spec_cleaned_ocr_def strip_collapse_words)

text \<open>
  C6, as stated, fails: for the on-screen text cafes (with U+00E9) without speech, removing the
  non-ASCII character gives cafs, but the extracted transcript is caf s.
\<close>

theorem non_ascii_replaced_counterexample:
  "text_annotations accented_annotations \<noteq> [] \<and>
   speech_transcript accented_annotations = [] \<and>
   spec_cleaned_ocr (ocr_joined accented_annotations) = ustr ''cafs'' \<and>
   map_sum id out_transcript
     (extract_data (Some (ustr ''bucket'')) \<lparr> annotation_results = [accented_annotations] \<rparr>) =
     Inr (Some (ustr ''caf s'')) \<and>
   map_sum id out_transcript
     (extract_data (Some (ustr ''bucket'')) \<lparr> annotation_results = [accented_annotations] \<rparr>) \<noteq>
     Inr (Some (spec_cleaned_ocr (ocr_joined accented_annotations)))"
  by (simp add: extract_data_def accented_annotations_def speech_transcript_def best_alternatives_def
      spec_cleaned_ocr_def ocr_joined_def
      cleaned_ocr_def duration_of_def empty_output_def strip_def is_space_def non_ascii_def ustr_def)

text \<open>
  C6, amended. For the first annotation result of a response, when there are text
  annotations and the speech text is empty, \<open>extract_data\<close> returns as transcript the
  space-joined OCR text in which every maximal run of non-ASCII characters has been
  replaced by one space, then every maximal run of whitespace by one space, trimmed at
  both ends (it raises only when the duration lookup does).
\<close>

theorem ocr_fallback_transcript:
  assumes "annotation_results r = a # rest"
    and "text_annotations a \<noteq> []"
    and "speech_transcript a = []"
  shows "extract_data b r =
     (case duration_of a of
        Inl e \<Rightarrow> Inl e
      | Inr d \<Rightarrow> Inr \<lparr>
          out_transcript =
            Some (strip (sub_runs is_space (sub_runs non_ascii
                    (join (ustr '' '') (map ta_text (text_annotations a)))))),
          out_ocr_text = Some (map ta_text (text_annotations a)),
          out_video_metadata = Some \<lparr> duration = d, platform = ustr ''youtube'',
            source_uri = ustr ''gs://'' @ fmt_opt b @ ustr ''/...'' \<rparr>,
          out_compliance_results = None,
          out_final_status = None,
          out_final_report = None,
          out_errors = None \<rparr>) \<and>
     strip (sub_runs is_space (sub_runs non_ascii
       (join (ustr '' '') (map ta_text (text_annotations a))))) =
     join (ustr '' '') (words separator (join (ustr '' '') (map ta_text (text_annotations a))))"
proof (intro conjI)
  from assms(2,3) show "extract_data b r =
     (case duration_of a of
        Inl e \<Rightarrow> Inl e
      | Inr d \<Rightarrow> Inr \<lparr>
          out_transcript =
            Some (strip (sub_runs is_space (sub_runs non_ascii
                    (join (ustr '' '') (map ta_text (text_annotations a)))))),
          out_ocr_text = Some (map ta_text (text_annotations a)),
          out_video_metadata = Some \<lparr> duration = d, platform = ustr ''youtube'',
            source_uri = ustr ''gs://'' @ fmt_opt b @ ustr ''/...'' \<rparr>,
          out_compliance_results = None,
          out_final_status = None,
          out_final_report = None,
          out_errors = None \<rparr>)"
    by (simp add: extract_data_first_result [OF assms(1)] cleaned_ocr_def ocr_joined_def
        split: sum.splits)
  have space: "ustr '' '' = [32]"
    by (simp add: ustr_def)
  show "strip (sub_runs is_space (sub_runs non_ascii
       (join (ustr '' '') (map ta_text (text_annotations a))))) =
     join (ustr '' '') (words separator (join (ustr '' '') (map ta_text (text_annotations a))))"
    unfolding space using cleaned_ocr_words [of "join [32] (map ta_text (text_annotations a))"]
    by (simp add: cleaned_ocr_def)
qed

theorem ocr_fallback_transcript_witness:
  "text_annotations banner_annotations \<noteq> [] \<and>
   speech_transcript banner_annotations = [] \<and>
   extract_data (Some (ustr ''bucket'')) \<lparr> annotation_results = [banner_annotations] \<rparr> =
     Inr \<lparr>
       out_transcript = Some (ustr ''SALE 50% off''),
       out_ocr_text = Some [ustr ''SALE  50%'', [8482, 8482], ustr ''off ''],
       out_video_metadata = Some \<lparr> duration = IntZero, platform = ustr ''youtube'',
         source_uri = ustr ''gs://bucket/...'' \<rparr>,
       out_compliance_results = None,
       out_final_status = None,
       out_final_report = None,
       out_errors = None \<rparr>"
proof -
  have 1: "annotation_results \<lparr> annotation_results = [banner_annotations] \<rparr> = banner_annotations # []"
    by simp
  have 2: "text_annotations banner_annotations \<noteq> []"
    by (simp add: banner_annotations_def)
  have 3: "speech_transcript banner_annotations = []"
    by (simp add: speech_transcript_def banner_annotations_def best_alternatives_def strip_def)
  have d: "duration_of banner_annotations = Inr IntZero"
    by (simp add: duration_of_def banner_annotations_def)
  have t: "map ta_text (text_annotations banner_annotations) =
      [ustr ''SALE  50%'', [8482, 8482], ustr ''off '']"
    by (simp add: banner_annotations_def)
  from ocr_fallback_transcript [OF 1 2 3, of "Some (ustr ''bucket'')", THEN conjunct1] 2 3
  show ?thesis
    by (simp add: d t fmt_opt_def strip_def is_space_def non_ascii_def ustr_def)
qed

section \<open>Markdown fences\<close>

text \<open>\<open>is_prefix\<close> and \<open>find_str\<close> are \<open>startswith\<close> and the index of the first occurrence.\<close>

lemma is_prefix_iff: "is_prefix p s \<longleftrightarrow> (\<exists>t. s = p @ t)"
  by (induction p s rule: is_prefix.induct) auto

lemma is_prefix_append: "is_prefix p s \<Longrightarrow> is_prefix p (s @ t)"
  by (auto simp add: is_prefix_iff)

lemma contains_iff_find: "contains sub s \<longleftrightarrow> find_str sub s \<noteq> None"
  by (induction s) auto

lemma find_str_first:
  "find_str sub s = Some i \<Longrightarrow>
     i \<le> length s \<and> is_prefix sub (drop i s) \<and> (\<forall>j<i. \<not> is_prefix sub (drop j s))"
proof (induction s arbitrary: i)
  case Nil
  then show ?case by (auto split: if_splits)
next
  case (Cons c cs)
  show ?case
  proof (cases "is_prefix sub (c # cs)")
    case True
    with Cons.prems show ?thesis by simp
  next
    case False
    with Cons.prems obtain k where k: "find_str sub cs = Some k" and i: "i = Suc k"
      by auto
    from Cons.IH [OF k] have
      "k \<le> length cs" "is_prefix sub (drop k cs)" "\<forall>j<k. \<not> is_prefix sub (drop j cs)"
      by simp_all
    with False i show ?thesis
      by (auto simp add: less_Suc_eq_0_disj)
  qed
qed

lemma find_str_append_contains:
  "contains sub s \<Longrightarrow> sub \<noteq> [] \<Longrightarrow> \<exists>i. find_str sub (s @ t) = Some i \<and> i < length s"
proof (induction s)
  case Nil
  then show ?case by simp
next
  case (Cons c cs)
  show ?case
  proof (cases "is_prefix sub (c # cs)")
    case True
    then have "is_prefix sub ((c # cs) @ t)" by (rule is_prefix_append)
    then show ?thesis by simp
  next
    case False
    with Cons.prems have "contains sub cs" by simp
    from Cons.IH [OF this Cons.prems(2)] obtain i where
      "find_str sub (cs @ t) = Some i" "i < length cs" by blast
    then show ?thesis by auto
  qed
qed

lemma find_at_end_not_contains:
  assumes "find_str sub (s @ t) = Some (length s)" and "sub \<noteq> []"
  shows "\<not> contains sub s"
proof
  assume "contains sub s"
  from find_str_append_contains [OF this assms(2), of t] assms(1) show False by auto
qed

lemma find_str_skip:
  "\<forall>c \<in> set s. c \<noteq> x \<Longrightarrow> find_str (x # sub) (s @ (x # sub) @ t) = Some (length s)"
  by (induction s) (auto simp add: is_prefix_iff)

lemma opening_fence_found:
  assumes "\<forall>c \<in> set pre. c \<noteq> 96"
  shows "find_str fence (fenced_response pre tag payload post) = Some (length pre)"
  using find_str_skip [OF assms, of "[96, 96]" "tag @ payload @ fence @ post"]
  by (simp add: fenced_response_def fence_def ustr_def)

lemma fence_nonempty: "fence \<noteq> []"
  by (simp add: fence_def ustr_def)

lemma fence_length: "length fence = 3"
  by (simp add: fence_def ustr_def)

lemma clean_markdown_no_fence: "\<not> contains fence content \<Longrightarrow> clean_markdown content = content"
  by (simp add: clean_markdown_def)

lemma search_fence_fenced:
  assumes "tag = [] \<and> \<not> is_prefix (ustr ''json'') (payload @ fence @ post) \<or> tag = ustr ''json''"
    and "find_str fence (pre @ fence @ tag @ payload @ fence @ post) = Some (length pre)"
    and "find_str fence (payload @ fence @ post) = Some (length payload)"
  shows "search_fence (pre @ fence @ tag @ payload @ fence @ post) = Some payload"
proof -
  have rest: "drop (length pre + 3) (pre @ fence @ tag @ payload @ fence @ post) =
      tag @ payload @ fence @ post"
    by (simp add: fence_length)
  from assms(1) have body:
    "(if is_prefix (ustr ''json'') (tag @ payload @ fence @ post)
      then drop 4 (tag @ payload @ fence @ post) else tag @ payload @ fence @ post) =
     payload @ fence @ post"
  proof
    assume "tag = [] \<and> \<not> is_prefix (ustr ''json'') (payload @ fence @ post)"
    then show ?thesis by simp
  next
    assume "tag = ustr ''json''"
    then show ?thesis by (simp add: is_prefix_iff ustr_def)
  qed
  show ?thesis
    unfolding search_fence_def assms(2) option.case Let_def rest body assms(3)
    by simp
qed

text \<open>
  C5, amended. For a response made of some text, a fence, the tag \<open>json\<close> or no tag, a
  payload, a fence and some more text, in which the opening fence is the first triple
  backtick of the response and the closing fence is the first triple backtick behind the
  tag (and an untagged payload does not begin with \<open>json\<close>), the cleaning yields
  the payload and the node parses the response exactly as it parses the bare payload.
  A response without triple backticks is left unchanged by the cleaning.
\<close>

theorem markdown_unwrapped:
  "((tag = [] \<and> \<not> is_prefix (ustr ''json'') (payload @ fence @ post) \<or> tag = ustr ''json'') \<and>
    find_str fence (fenced_response pre tag payload post) = Some (length pre) \<and>
    find_str fence (payload @ fence @ post) = Some (length payload) \<longrightarrow>
      clean_markdown (fenced_response pre tag payload post) = payload \<and>
      parse_audit env (fenced_response pre tag payload post) = parse_audit env payload) \<and>
   (\<not> contains fence content \<longrightarrow> clean_markdown content = content)"
proof (intro conjI impI)
  assume h: "(tag = [] \<and> \<not> is_prefix (ustr ''json'') (payload @ fence @ post) \<or> tag = ustr ''json'') \<and>
    find_str fence (fenced_response pre tag payload post) = Some (length pre) \<and>
    find_str fence (payload @ fence @ post) = Some (length payload)"
  then have found: "search_fence (fenced_response pre tag payload post) = Some payload"
    unfolding fenced_response_def by (intro search_fence_fenced) simp_all
  from h have "contains fence (fenced_response pre tag payload post)"
    by (simp add: contains_iff_find)
  with found show unwrapped: "clean_markdown (fenced_response pre tag payload post) = payload"
    by (simp add: clean_markdown_def)
  from h have "\<not> contains fence payload"
    by (intro find_at_end_not_contains [of fence payload "fence @ post"] fence_nonempty) simp
  then have "clean_markdown payload = payload"
    by (rule clean_markdown_no_fence)
  with unwrapped show "parse_audit env (fenced_response pre tag payload post) = parse_audit env payload"
    by (simp add: parse_audit_def)
next
  assume "\<not> contains fence content"
  then show "clean_markdown content = content"
    by (rule clean_markdown_no_fence)
qed

text \<open>
  C5, as stated, fails: for a tagged, fenced JSON object one of whose strings contains a
  triple backtick, the lazy group ends at that backtick, and the text handed to the
  parser is a truncated object and not the payload.
\<close>

theorem fence_inside_payload_counterexample:
  \<open>clean_markdown (fenced_response [] (ustr ''json'') quoting_payload []) =
     ustr ''{"final_report": "a'' \<and>
   clean_markdown (fenced_response [] (ustr ''json'') quoting_payload []) \<noteq> quoting_payload \<and>
   strip (clean_markdown (fenced_response [] (ustr ''json'') quoting_payload [])) \<noteq>
     strip quoting_payload\<close>
  by (simp add: clean_markdown_def search_fence_def fenced_response_def quoting_payload_def
      fence_def strip_def is_space_def ustr_def)

theorem markdown_unwrapped_witness:
  \<open>clean_markdown (fenced_response (ustr ''Here is the audit: '') (ustr ''json'')
       (ustr '' {"status": "PASS"} '') (ustr '' Done.'')) = ustr '' {"status": "PASS"} '' \<and>
   clean_markdown (ustr ''{"status": "PASS"}'') = ustr ''{"status": "PASS"}''\<close>
proof -
  let ?pre = "ustr ''Here is the audit: ''" and ?tag = "ustr ''json''"
  let ?payload = \<open>ustr '' {"status": "PASS"} ''\<close> and ?post = "ustr '' Done.''"
  let ?plain = \<open>ustr ''{"status": "PASS"}''\<close>
  have 1: "?tag = [] \<and> \<not> is_prefix (ustr ''json'') (?payload @ fence @ ?post) \<or> ?tag = ustr ''json''"
    by simp
  have 2: "find_str fence (fenced_response ?pre ?tag ?payload ?post) = Some (length ?pre)"
    by (simp add: fenced_response_def fence_def ustr_def)
  have 3: "find_str fence (?payload @ fence @ ?post) = Some (length ?payload)"
    by (simp add: fence_def ustr_def)
  have 4: "\<not> contains fence ?plain"
    by (simp add: fence_def ustr_def)
  from markdown_unwrapped [of ?tag ?payload ?post ?pre passing_env ?plain] 1 2 3 4
  show ?thesis
    by blast
qed

end
